theory Spec2Isabelle
  imports Main "HOL-Library.AList"
begin

section \<open>The display-state scheduler of ControlEye (src/main.py)\<close>

text \<open>
  The development embeds the scheduling core of \<^verbatim>\<open>ScreenController\<close>: the stable
  configuration key, the schedule store (\<^verbatim>\<open>load_monitor_config\<close> over a
  \<^verbatim>\<open>configparser.ConfigParser\<close>), device-name resolution, the blank and restore
  operations, the polling tick \<^verbatim>\<open>check_auto_screen_off\<close> and the timer loop around it.

  Conventions.
  \<^item> Python \<^verbatim>\<open>int\<close> is \<^typ>\<open>int\<close>; a Python \<^verbatim>\<open>str\<close> is the list of its code points.
  \<^item> What depends on the interpreter and not on the program is a parameter
    (\<open>runtime\<close>): the Unicode tables behind \<^verbatim>\<open>int()\<close> and \<^verbatim>\<open>str.lower()\<close>, the limit on
    the digits of \<^verbatim>\<open>int()\<close>, the longest sleep.
  \<^item> An exception is a value: a fallible step returns \<open>exn + 'a\<close> or \<open>'a option\<close>, and
    every \<^verbatim>\<open>try/except\<close> of the source is a case distinction of the model.
  \<^item> The operating system is a parameter (\<open>driver\<close>): its answers may depend on
    every effect performed so far, so nothing is assumed about what a mode change does.
    Only the list of display devices is taken as fixed while one operation runs.
  \<^item> The error dialog and the rebuild of the window are recorded as effects and return;
    a Tk variable holds a string; \<^verbatim>\<open>print\<close> is left out.
\<close>

subsection \<open>Python strings and integers\<close>

type_synonym str = "nat list"

text \<open>The Python string of an ASCII literal.\<close>

definition ascii :: "string \<Rightarrow> str" where
  "ascii s = map of_char s"

datatype exn = ValueError | InterpolationError

text \<open>
  The interpreter. For a code point from 127 on, \<open>unicode_isspace\<close> tells whether it is
  a Unicode blank and \<open>unicode_todecimal\<close> gives its value as a decimal digit (0 to 9),
  if it is one. \<open>unicode_lower\<close> is \<^verbatim>\<open>str.lower()\<close> on a string that is not pure ASCII.
  \<open>int_max_str_digits\<close> is \<^verbatim>\<open>sys.get_int_max_str_digits()\<close>, 0 where there is no limit.
  \<open>sleep_max\<close> is the longest length \<^verbatim>\<open>time.sleep\<close> accepts.
\<close>

record runtime =
  unicode_isspace :: "nat \<Rightarrow> bool"
  unicode_todecimal :: "nat \<Rightarrow> nat option"
  unicode_lower :: "str \<Rightarrow> str"
  int_max_str_digits :: nat
  sleep_max :: int

text \<open>\<^verbatim>\<open>str(n)\<close> for an integer, as used by the f-strings.\<close>

fun str_nat :: "nat \<Rightarrow> str" where
  "str_nat n = (if n < 10 then [48 + n] else str_nat (n div 10) @ [48 + n mod 10])"

declare str_nat.simps [simp del]

definition str_int :: "int \<Rightarrow> str" where
  "str_int i = (if i < 0 then 45 # str_nat (nat (- i)) else str_nat (nat i))"

text \<open>
  \<^verbatim>\<open>int(s)\<close> in base 10. The string is first brought to ASCII: a code point below 127
  stays, a Unicode blank becomes a space, a Unicode decimal digit its ASCII digit,
  anything else a question mark. Then the C blanks (9 to 13 and 32) are skipped on both
  sides, one sign is allowed, and the digits may be grouped by single underscores. More
  than 640 digits are refused when they exceed the limit of the interpreter. \<open>None\<close> is
  \<^verbatim>\<open>ValueError\<close>. (43 and 45 are the signs, 95 the underscore, 48 to 57 the digits.)
\<close>

definition to_ascii :: "runtime \<Rightarrow> nat \<Rightarrow> nat" where
  "to_ascii rt c =
     (if c < 127 then c
      else if unicode_isspace rt c then 32
      else (case unicode_todecimal rt c of
              Some d \<Rightarrow> if d < 10 then 48 + d else 63
            | None \<Rightarrow> 63))"

definition py_isspace :: "nat \<Rightarrow> bool" where
  "py_isspace c = (c = 32 \<or> (9 \<le> c \<and> c \<le> 13))"

definition strip :: "str \<Rightarrow> str" where
  "strip s = rev (dropWhile py_isspace (rev (dropWhile py_isspace s)))"

definition is_digit :: "nat \<Rightarrow> bool" where
  "is_digit c = (48 \<le> c \<and> c \<le> 57)"

definition digit_val :: "nat \<Rightarrow> nat" where
  "digit_val c = c - 48"

fun parse_digits :: "nat \<Rightarrow> str \<Rightarrow> nat option" where
  "parse_digits acc [] = Some acc"
| "parse_digits acc [c] = (if is_digit c then Some (10 * acc + digit_val c) else None)"
| "parse_digits acc (c # d # cs) =
     (if is_digit c then parse_digits (10 * acc + digit_val c) (d # cs)
      else if c = 95 \<and> is_digit d then parse_digits (10 * acc + digit_val d) cs
      else None)"

definition parse_nat :: "str \<Rightarrow> nat option" where
  "parse_nat s = (case s of [] \<Rightarrow> None
                  | c # cs \<Rightarrow> if is_digit c then parse_digits (digit_val c) cs else None)"

definition too_many_digits :: "runtime \<Rightarrow> str \<Rightarrow> bool" where
  "too_many_digits rt body =
     (let digits = length (filter is_digit body)
      in digits > 640 \<and> int_max_str_digits rt > 0 \<and> digits > int_max_str_digits rt)"

definition py_int :: "runtime \<Rightarrow> str \<Rightarrow> int option" where
  "py_int rt s =
     (case strip (map (to_ascii rt) s) of
        [] \<Rightarrow> None
      | c # cs \<Rightarrow>
          (let body = (if c = 45 \<or> c = 43 then cs else c # cs)
           in if too_many_digits rt body then None
              else (case parse_nat body of
                      None \<Rightarrow> None
                    | Some n \<Rightarrow> Some (if c = 45 then - int n else int n))))"

text \<open>\<^verbatim>\<open>int(var.get())\<close> as a step that may raise.\<close>

definition int_var :: "runtime \<Rightarrow> str \<Rightarrow> exn + int" where
  "int_var rt v = (case py_int rt v of None \<Rightarrow> Inl ValueError | Some i \<Rightarrow> Inr i)"

text \<open>\<^verbatim>\<open>s.split(':')\<close>: always at least one part (58 is the colon).\<close>

fun split_colon :: "str \<Rightarrow> str list" where
  "split_colon [] = [[]]"
| "split_colon (c # cs) =
     (if c = 58 then [] # split_colon cs
      else (case split_colon cs of p # ps \<Rightarrow> (c # p) # ps | [] \<Rightarrow> [[c]]))"

text \<open>
  \<^verbatim>\<open>s.lower()\<close>: letter by letter on a pure ASCII string, the interpreter's Unicode
  casing on any other.
\<close>

definition lower_ascii :: "nat \<Rightarrow> nat" where
  "lower_ascii c = (if 65 \<le> c \<and> c \<le> 90 then c + 32 else c)"

definition lower :: "runtime \<Rightarrow> str \<Rightarrow> str" where
  "lower rt s = (if list_all (\<lambda>c. c < 128) s then map lower_ascii s else unicode_lower rt s)"


subsection \<open>Monitors and the stable key\<close>

text \<open>The dict built by \<^verbatim>\<open>get_screen_info\<close> for one display.\<close>

record monitor =
  mon_id :: int
  name :: str
  width :: int
  height :: int
  x :: int
  y :: int
  is_primary :: bool

text \<open>\<^verbatim>\<open>f"{monitor['name']}_{monitor['width']}x{monitor['height']}"\<close>\<close>

definition get_monitor_config_key :: "monitor \<Rightarrow> str" where
  "get_monitor_config_key m =
     name m @ ascii ''_'' @ str_int (width m) @ ascii ''x'' @ str_int (height m)"

subsection \<open>The schedule store\<close>

text \<open>
  \<^verbatim>\<open>self.config\<close> is a \<^verbatim>\<open>ConfigParser()\<close>: the \<^verbatim>\<open>DEFAULT\<close> section and the named
  sections, each a dict from option names (already lower-cased) to values.
\<close>

record config_parser =
  defaults :: "str \<rightharpoonup> str"
  sections :: "str \<rightharpoonup> (str \<rightharpoonup> str)"

definition has_section :: "config_parser \<Rightarrow> str \<Rightarrow> bool" where
  "has_section cfg s = (sections cfg s \<noteq> None)"

text \<open>\<^verbatim>\<open>key in self.config\<close>: the default section always counts as present.\<close>

definition in_config :: "config_parser \<Rightarrow> str \<Rightarrow> bool" where
  "in_config cfg key = (key = ascii ''DEFAULT'' \<or> has_section cfg key)"

text \<open>The options visible from a section: its own, then those of \<^verbatim>\<open>DEFAULT\<close>.\<close>

definition unify_values :: "config_parser \<Rightarrow> str \<Rightarrow> (str \<rightharpoonup> str) option" where
  "unify_values cfg s =
     (case sections cfg s of
        Some d \<Rightarrow> Some (\<lambda>k. case d k of Some v \<Rightarrow> Some v | None \<Rightarrow> defaults cfg k)
      | None \<Rightarrow> if s = ascii ''DEFAULT'' then Some (defaults cfg) else None)"

text \<open>
  \<^verbatim>\<open>BasicInterpolation._interpolate_some\<close>, the interpolation of a parser made without
  arguments. The text up to the next percent sign (37) is copied. Two percent signs
  give one. A percent sign and \<^verbatim>\<open>(name)s\<close> (40, 41, 115; the name is not empty and ends
  at the first closing parenthesis) give the value of the lower-cased name among the
  visible options, itself interpolated one level deeper when it contains a percent
  sign. Any other use of a percent sign, a name without a value and a depth above 10
  raise: the result is \<open>None\<close>.
\<close>

function interpolate_some :: "runtime \<Rightarrow> (str \<rightharpoonup> str) \<Rightarrow> nat \<Rightarrow> str \<Rightarrow> str option" where
  "interpolate_some rt m depth rest =
     (if depth > 10 then None
      else
        (case dropWhile (\<lambda>c. c \<noteq> 37) rest of
           [] \<Rightarrow> Some rest
         | p # r1 \<Rightarrow>
             (case r1 of
                [] \<Rightarrow> None
              | c # r2 \<Rightarrow>
                  if c = 37 then
                    (case interpolate_some rt m depth r2 of
                       None \<Rightarrow> None
                     | Some t \<Rightarrow> Some (takeWhile (\<lambda>c. c \<noteq> 37) rest @ 37 # t))
                  else if c = 40 then
                    (case dropWhile (\<lambda>c. c \<noteq> 41) r2 of
                       q # s # r4 \<Rightarrow>
                         if takeWhile (\<lambda>c. c \<noteq> 41) r2 \<noteq> [] \<and> s = 115 then
                           (case m (lower rt (takeWhile (\<lambda>c. c \<noteq> 41) r2)) of
                              None \<Rightarrow> None
                            | Some v \<Rightarrow>
                                (case (if 37 \<in> set v then interpolate_some rt m (depth + 1) v
                                       else Some v) of
                                   None \<Rightarrow> None
                                 | Some a \<Rightarrow>
                                     (case interpolate_some rt m depth r4 of
                                        None \<Rightarrow> None
                                      | Some t \<Rightarrow>
                                          Some (takeWhile (\<lambda>c. c \<noteq> 37) rest @ a @ t))))
                         else None
                     | _ \<Rightarrow> None)
                  else None)))"
  by pat_completeness auto

termination interpolate_some
proof (relation "measures [\<lambda>(rt, m, depth, rest). 11 - depth, \<lambda>(rt, m, depth, rest). length rest]",
    goal_cases)
  case 1
  show ?case by simp
next
  case (2 rt m depth rest p r1 c r2)
  have "length (dropWhile (\<lambda>c. c \<noteq> 37) rest) \<le> length rest"
    by (rule length_dropWhile_le)
  with 2 have "length r1 < length rest" by simp
  with 2 show ?case by simp
next
  case (3 rt m depth rest p r1 c r2 q ss s r4 v)
  then have "10 - depth < 11 - depth" by arith
  then show ?case by simp
next
  case (4 rt m depth rest p r1 c r2 q ss s r4 v a)
  have "length (dropWhile (\<lambda>c. c \<noteq> 37) rest) \<le> length rest"
    by (rule length_dropWhile_le)
  with 4 have "length r1 < length rest" by simp
  moreover have "length (dropWhile (\<lambda>c. c \<noteq> 41) r2) \<le> length r2"
    by (rule length_dropWhile_le)
  with 4 have "length ss < length r2" by simp
  ultimately show ?case using 4 by simp
qed

declare interpolate_some.simps [simp del]

text \<open>\<^verbatim>\<open>BasicInterpolation.before_get\<close>: the interpolation starts at depth 1.\<close>

definition before_get :: "runtime \<Rightarrow> (str \<rightharpoonup> str) \<Rightarrow> str \<Rightarrow> str option" where
  "before_get rt d v = interpolate_some rt d 1 v"

text \<open>
  \<^verbatim>\<open>config.get(section, option, fallback=fb)\<close>: the fallback stands in for a missing
  section or option; a value that is found goes through the interpolation. The option
  name is lower-cased first (\<^verbatim>\<open>optionxform\<close>).
\<close>

definition config_get :: "runtime \<Rightarrow> config_parser \<Rightarrow> str \<Rightarrow> str \<Rightarrow> str \<Rightarrow> exn + str" where
  "config_get rt cfg s opt fb =
     (case unify_values cfg s of
        None \<Rightarrow> Inr fb
      | Some d \<Rightarrow>
          (case d (lower rt opt) of
             None \<Rightarrow> Inr fb
           | Some v \<Rightarrow> (case before_get rt d v of None \<Rightarrow> Inl InterpolationError
                        | Some v' \<Rightarrow> Inr v')))"

text \<open>\<^verbatim>\<open>_convert_to_boolean\<close>: the lower-cased value is looked up in \<^verbatim>\<open>BOOLEAN_STATES\<close>.\<close>

definition convert_to_boolean :: "runtime \<Rightarrow> str \<Rightarrow> exn + bool" where
  "convert_to_boolean rt v =
     (let l = lower rt v in
      if l \<in> set [ascii ''1'', ascii ''yes'', ascii ''true'', ascii ''on''] then Inr True
      else if l \<in> set [ascii ''0'', ascii ''no'', ascii ''false'', ascii ''off''] then Inr False
      else Inl ValueError)"

definition config_getboolean :: "runtime \<Rightarrow> config_parser \<Rightarrow> str \<Rightarrow> str \<Rightarrow> bool \<Rightarrow> exn + bool" where
  "config_getboolean rt cfg s opt fb =
     (case unify_values cfg s of
        None \<Rightarrow> Inr fb
      | Some d \<Rightarrow>
          (case d (lower rt opt) of
             None \<Rightarrow> Inr fb
           | Some v \<Rightarrow> (case before_get rt d v of None \<Rightarrow> Inl InterpolationError
                        | Some v' \<Rightarrow> convert_to_boolean rt v')))"

definition config_getint :: "runtime \<Rightarrow> config_parser \<Rightarrow> str \<Rightarrow> str \<Rightarrow> int \<Rightarrow> exn + int" where
  "config_getint rt cfg s opt fb =
     (case unify_values cfg s of
        None \<Rightarrow> Inr fb
      | Some d \<Rightarrow>
          (case d (lower rt opt) of
             None \<Rightarrow> Inr fb
           | Some v \<Rightarrow> (case before_get rt d v of None \<Rightarrow> Inl InterpolationError
                        | Some v' \<Rightarrow> int_var rt v')))"

text \<open>The dict returned by \<^verbatim>\<open>load_monitor_config\<close>.\<close>

record schedule_entry =
  auto_enabled :: bool
  start_time :: str
  end_time :: str

definition default_entry :: schedule_entry where
  "default_entry =
     \<lparr>auto_enabled = False, start_time = ascii ''17:0:0'', end_time = ascii ''7:0:0''\<rparr>"

text \<open>
  The body of the \<^verbatim>\<open>try\<close> in \<^verbatim>\<open>load_monitor_config\<close>: the three reads in the order of
  the dict literal; the first exception leaves the body.
\<close>

definition load_section :: "runtime \<Rightarrow> config_parser \<Rightarrow> str \<Rightarrow> exn + schedule_entry" where
  "load_section rt cfg key =
     (case config_getboolean rt cfg key (ascii ''auto_enabled'') False of
        Inl e \<Rightarrow> Inl e
      | Inr b \<Rightarrow>
          (case config_get rt cfg key (ascii ''start_time'') (ascii ''22:00:00'') of
             Inl e \<Rightarrow> Inl e
           | Inr s \<Rightarrow>
               (case config_get rt cfg key (ascii ''end_time'') (ascii ''08:00:00'') of
                  Inl e \<Rightarrow> Inl e
                | Inr t \<Rightarrow> Inr \<lparr>auto_enabled = b, start_time = s, end_time = t\<rparr>)))"

definition load_monitor_config :: "runtime \<Rightarrow> config_parser \<Rightarrow> monitor \<Rightarrow> schedule_entry" where
  "load_monitor_config rt cfg m =
     (let key = get_monitor_config_key m in
      if in_config cfg key then
        (case load_section rt cfg key of Inr r \<Rightarrow> r | Inl e \<Rightarrow> default_entry)
      else default_entry)"

text \<open>
  \<^verbatim>\<open>load_config\<close> at start-up. The file is absent, or \<^verbatim>\<open>config.read\<close> leaves a parser
  state and either returns or raises (a file that cannot be decoded or parsed).
\<close>

datatype config_file = NoFile | ReadReturns config_parser | ReadRaises config_parser

definition load_config :: "runtime \<Rightarrow> config_parser \<Rightarrow> config_file \<Rightarrow> config_parser \<times> int" where
  "load_config rt cfg0 f =
     (case f of
        NoFile \<Rightarrow> (cfg0, 5)
      | ReadRaises cfg \<Rightarrow> (cfg, 5)
      | ReadReturns cfg \<Rightarrow>
          if has_section cfg (ascii ''SETTINGS'') then
            (case config_getint rt cfg (ascii ''SETTINGS'') (ascii ''detection_interval'') 5 of
               Inr i \<Rightarrow> (cfg, i) | Inl e \<Rightarrow> (cfg, 5))
          else (cfg, 5))"

text \<open>The parser made by \<^verbatim>\<open>ConfigParser()\<close>: no section, no default.\<close>

definition new_config :: config_parser where
  "new_config = \<lparr>defaults = Map.empty, sections = Map.empty\<rparr>"

subsection \<open>Preview widgets\<close>

text \<open>
  The entries of \<^verbatim>\<open>self.preview_widgets\<close> that the scheduler reads: the monitor
  (\<^verbatim>\<open>'monitor'\<close>), the flag (\<^verbatim>\<open>'auto_enabled'\<close>) and the six Tk string variables.
\<close>

record widget_info =
  wmonitor :: monitor
  wauto_enabled :: bool
  start_hour_var :: str
  start_min_var :: str
  start_sec_var :: str
  end_hour_var :: str
  end_min_var :: str
  end_sec_var :: str

text \<open>\<^verbatim>\<open>parts[i] if len(parts) > i else d\<close>\<close>

definition part_or :: "str list \<Rightarrow> nat \<Rightarrow> str \<Rightarrow> str" where
  "part_or parts i d = (if i < length parts then parts ! i else d)"

text \<open>The widget that \<^verbatim>\<open>create_widgets\<close> builds for a monitor from its loaded entry.\<close>

definition create_widget :: "runtime \<Rightarrow> config_parser \<Rightarrow> monitor \<Rightarrow> widget_info" where
  "create_widget rt cfg m =
     (let config = load_monitor_config rt cfg m;
          start_parts = split_colon (start_time config);
          end_parts = split_colon (end_time config)
      in \<lparr>wmonitor = m, wauto_enabled = auto_enabled config,
          start_hour_var = part_or start_parts 0 (ascii ''18''),
          start_min_var = part_or start_parts 1 (ascii ''00''),
          start_sec_var = part_or start_parts 2 (ascii ''00''),
          end_hour_var = part_or end_parts 0 (ascii ''07''),
          end_min_var = part_or end_parts 1 (ascii ''00''),
          end_sec_var = part_or end_parts 2 (ascii ''00'')\<rparr>)"

subsection \<open>The blank window\<close>

definition total_sec :: "int \<Rightarrow> int \<Rightarrow> int \<Rightarrow> int" where
  "total_sec h mi s = h * 3600 + mi * 60 + s"

definition in_sleep_time :: "int \<Rightarrow> int \<Rightarrow> int \<Rightarrow> bool" where
  "in_sleep_time start_total_sec end_total_sec current_total_sec =
     (if start_total_sec \<le> end_total_sec
      then start_total_sec \<le> current_total_sec \<and> current_total_sec \<le> end_total_sec
      else current_total_sec \<ge> start_total_sec \<or> current_total_sec \<le> end_total_sec)"

text \<open>
  The six \<^verbatim>\<open>int(var.get())\<close> of a tick, in the order of the source, then the window
  test against the wall clock \<open>(hour, minute, second)\<close>.
\<close>

definition widget_times :: "runtime \<Rightarrow> widget_info \<Rightarrow> exn + (int \<times> int)" where
  "widget_times rt wi =
     (case int_var rt (start_hour_var wi) of Inl e \<Rightarrow> Inl e | Inr start_hour \<Rightarrow>
     (case int_var rt (start_min_var wi) of Inl e \<Rightarrow> Inl e | Inr start_min \<Rightarrow>
     (case int_var rt (start_sec_var wi) of Inl e \<Rightarrow> Inl e | Inr start_sec \<Rightarrow>
     (case int_var rt (end_hour_var wi) of Inl e \<Rightarrow> Inl e | Inr end_hour \<Rightarrow>
     (case int_var rt (end_min_var wi) of Inl e \<Rightarrow> Inl e | Inr end_min \<Rightarrow>
     (case int_var rt (end_sec_var wi) of Inl e \<Rightarrow> Inl e | Inr end_sec \<Rightarrow>
        Inr (total_sec start_hour start_min start_sec,
             total_sec end_hour end_min end_sec)))))))"

definition widget_in_sleep_time :: "runtime \<Rightarrow> int \<times> int \<times> int \<Rightarrow> widget_info \<Rightarrow> exn + bool" where
  "widget_in_sleep_time rt now wi =
     (case widget_times rt wi of
        Inl e \<Rightarrow> Inl e
      | Inr (start_total_sec, end_total_sec) \<Rightarrow>
          (case now of (current_hour, current_min, current_sec) \<Rightarrow>
             Inr (in_sleep_time start_total_sec end_total_sec
                    (total_sec current_hour current_min current_sec))))"

subsection \<open>The display driver\<close>

text \<open>
  A \<^verbatim>\<open>PyDEVMODE\<close>, restricted to the members the program reads or writes. The pixel
  sizes are unsigned (\<^verbatim>\<open>DWORD\<close>), the position is signed.
\<close>

datatype dm_field = DM_POSITION | DM_PELSWIDTH | DM_PELSHEIGHT | DM_OTHER nat

record devmode =
  PelsWidth :: nat
  PelsHeight :: nat
  Position_x :: int
  Position_y :: int
  Fields :: "dm_field set"

datatype settings_kind = ENUM_CURRENT_SETTINGS | ENUM_REGISTRY_SETTINGS

datatype cds_flags = CDS_0 | CDS_UPDATEREGISTRY

datatype disp_change = DISP_CHANGE_SUCCESSFUL | DISP_CHANGE_ERROR int

text \<open>
  What the program does to the outside, in the order it does it: the two mode-changing
  calls, the error dialog and the rebuild of the window (\<^verbatim>\<open>refresh_screens\<close>, which
  empties \<^verbatim>\<open>self.preview_widgets\<close>).
\<close>

datatype effect =
    Call_ChangeDisplaySettings
  | Call_ChangeDisplaySettingsEx str devmode cds_flags
  | Call_showerror
  | Call_refresh_screens

text \<open>
  The operating system as the program sees it. \<open>EnumDisplayDevices\<close> lists the
  \<^verbatim>\<open>DeviceName\<close> of device 0, 1, ...; the call raises past the end of the list. The
  other three answer in view of all effects so far; \<open>None\<close> is a raised exception.
\<close>

record driver =
  EnumDisplayDevices :: "str list"
  EnumDisplaySettings :: "effect list \<Rightarrow> str \<Rightarrow> settings_kind \<Rightarrow> devmode option"
  ChangeDisplaySettingsEx :: "effect list \<Rightarrow> str \<Rightarrow> devmode \<Rightarrow> cds_flags \<Rightarrow> disp_change option"
  ChangeDisplaySettings :: "effect list \<Rightarrow> disp_change option"

text \<open>An entry of \<^verbatim>\<open>self.original_settings\<close>: the geometry saved before a blank.\<close>

record original =
  orig_width :: nat
  orig_height :: nat
  position_x :: int
  position_y :: int

text \<open>
  The controller: \<^verbatim>\<open>self.original_settings\<close> (\<open>None\<close> while the attribute does not
  exist; a dict in insertion order, keyed by the device name) and the effects so far.
\<close>

record controller =
  original_settings :: "(str \<times> original) list option"
  effects :: "effect list"

definition add_effect :: "controller \<Rightarrow> effect \<Rightarrow> controller" where
  "add_effect c e = c\<lparr>effects := effects c @ [e]\<rparr>"

text \<open>\<^verbatim>\<open>hasattr(self, 'original_settings') and d in self.original_settings\<close>, with the entry.\<close>

definition saved_lookup :: "controller \<Rightarrow> str \<Rightarrow> original option" where
  "saved_lookup c d = (case original_settings c of None \<Rightarrow> None | Some al \<Rightarrow> map_of al d)"

text \<open>\<^verbatim>\<open>win32api.EnumDisplayDevices(None, i)\<close> for a Python integer \<open>i\<close>.\<close>

definition enum_device :: "driver \<Rightarrow> int \<Rightarrow> str option" where
  "enum_device drv i =
     (if 0 \<le> i \<and> nat i < length (EnumDisplayDevices drv)
      then Some (EnumDisplayDevices drv ! nat i) else None)"

subsection \<open>Device-name resolution\<close>

definition mode_matches :: "devmode \<Rightarrow> monitor \<Rightarrow> bool" where
  "mode_matches settings m =
     (Position_x settings = x m \<and> Position_y settings = y m \<and>
      int (PelsWidth settings) = width m \<and> int (PelsHeight settings) = height m)"

definition original_matches :: "original \<Rightarrow> monitor \<Rightarrow> bool" where
  "original_matches orig m =
     (position_x orig = x m \<and> position_y orig = y m \<and>
      int (orig_width orig) = width m \<and> int (orig_height orig) = height m)"

text \<open>
  The \<^verbatim>\<open>while True\<close> of \<^verbatim>\<open>get_device_name_by_monitor\<close> over the devices: the current
  mode decides when its query returns; the registry mode when the first query raises;
  the saved geometry when both raise. The loop ends when \<^verbatim>\<open>EnumDisplayDevices\<close> raises,
  that is at the end of the list.
\<close>

fun match_devices :: "driver \<Rightarrow> controller \<Rightarrow> monitor \<Rightarrow> str list \<Rightarrow> str option" where
  "match_devices drv c m [] = None"
| "match_devices drv c m (d # ds) =
     (case EnumDisplaySettings drv (effects c) d ENUM_CURRENT_SETTINGS of
        Some settings \<Rightarrow>
          if mode_matches settings m then Some d else match_devices drv c m ds
      | None \<Rightarrow>
          (case EnumDisplaySettings drv (effects c) d ENUM_REGISTRY_SETTINGS of
             Some settings \<Rightarrow>
               if mode_matches settings m then Some d else match_devices drv c m ds
           | None \<Rightarrow>
               (case saved_lookup c d of
                  Some orig \<Rightarrow>
                    if original_matches orig m then Some d else match_devices drv c m ds
                | None \<Rightarrow> match_devices drv c m ds)))"

text \<open>After the loop: the device at index \<^verbatim>\<open>monitor['id'] - 1\<close>, if there is one.\<close>

definition get_device_name_by_monitor :: "driver \<Rightarrow> controller \<Rightarrow> monitor \<Rightarrow> str option" where
  "get_device_name_by_monitor drv c m =
     (case match_devices drv c m (EnumDisplayDevices drv) of
        Some d \<Rightarrow> Some d
      | None \<Rightarrow> enum_device drv (mon_id m - 1))"

subsection \<open>State query, blank and restore\<close>

text \<open>
  \<^verbatim>\<open>not device_name\<close> holds for \<^verbatim>\<open>None\<close> and for the empty str. Every query of
  \<^verbatim>\<open>is_monitor_on\<close> handles its own exception, so the outer handler is never reached.
\<close>

definition is_monitor_on :: "driver \<Rightarrow> controller \<Rightarrow> monitor \<Rightarrow> bool" where
  "is_monitor_on drv c m =
     (case get_device_name_by_monitor drv c m of
        None \<Rightarrow> True
      | Some device_name \<Rightarrow>
          if device_name = [] then True
          else if saved_lookup c device_name \<noteq> None then False
          else (case EnumDisplaySettings drv (effects c) device_name ENUM_CURRENT_SETTINGS of
                  Some current_settings \<Rightarrow>
                    PelsWidth current_settings > 0 \<and> PelsHeight current_settings > 0
                | None \<Rightarrow> False))"

text \<open>
  \<^verbatim>\<open>turn_off_screen\<close>: an unresolved device, a raising query, a raising or rejected
  mode change each end in the error dialog. The saved entry is written before the mode
  change is tried; an existing key keeps its place in the dict, a new one goes last.
\<close>

definition turn_off_screen :: "driver \<Rightarrow> controller \<Rightarrow> monitor \<Rightarrow> controller" where
  "turn_off_screen drv c m =
     (case get_device_name_by_monitor drv c m of
        None \<Rightarrow> add_effect c Call_showerror
      | Some device_name \<Rightarrow>
          if device_name = [] then add_effect c Call_showerror
          else
            (case EnumDisplaySettings drv (effects c) device_name ENUM_CURRENT_SETTINGS of
               None \<Rightarrow> add_effect c Call_showerror
             | Some current_settings \<Rightarrow>
                 (let saved = \<lparr>orig_width = PelsWidth current_settings,
                               orig_height = PelsHeight current_settings,
                               position_x = Position_x current_settings,
                               position_y = Position_y current_settings\<rparr>;
                      c1 = c\<lparr>original_settings :=
                              Some (AList.update device_name saved
                                      (case original_settings c of None \<Rightarrow> [] | Some al \<Rightarrow> al))\<rparr>;
                      new_settings = current_settings\<lparr>PelsWidth := 0, PelsHeight := 0,
                                       Fields := {DM_PELSWIDTH, DM_PELSHEIGHT, DM_POSITION}\<rparr>;
                      result = ChangeDisplaySettingsEx drv (effects c1) device_name new_settings CDS_0;
                      c2 = add_effect c1 (Call_ChangeDisplaySettingsEx device_name new_settings CDS_0)
                  in if result = Some DISP_CHANGE_SUCCESSFUL then c2
                     else add_effect c2 Call_showerror)))"

text \<open>
  The second method of \<^verbatim>\<open>force_refresh_displays\<close>: every device up to the first one
  without a name gets its current mode applied again, when that mode is not blank.
\<close>

fun refresh_devices :: "driver \<Rightarrow> controller \<Rightarrow> nat \<Rightarrow> str list \<Rightarrow> controller \<times> nat" where
  "refresh_devices drv c refreshed_count [] = (c, refreshed_count)"
| "refresh_devices drv c refreshed_count (device_name # ds) =
     (if device_name = [] then (c, refreshed_count)
      else
        (case EnumDisplaySettings drv (effects c) device_name ENUM_CURRENT_SETTINGS of
           None \<Rightarrow> refresh_devices drv c refreshed_count ds
         | Some current_settings \<Rightarrow>
             if PelsWidth current_settings > 0 \<and> PelsHeight current_settings > 0 then
               (let result = ChangeDisplaySettingsEx drv (effects c) device_name
                               current_settings CDS_UPDATEREGISTRY;
                    c' = add_effect c (Call_ChangeDisplaySettingsEx device_name
                                         current_settings CDS_UPDATEREGISTRY)
                in refresh_devices drv c'
                     (if result = Some DISP_CHANGE_SUCCESSFUL then refreshed_count + 1
                      else refreshed_count) ds)
             else refresh_devices drv c refreshed_count ds))"

definition force_refresh_displays :: "driver \<Rightarrow> controller \<Rightarrow> bool \<times> controller" where
  "force_refresh_displays drv c =
     (let result = ChangeDisplaySettings drv (effects c);
          c1 = add_effect c Call_ChangeDisplaySettings
      in case result of
           None \<Rightarrow> (False, c1)
         | Some r \<Rightarrow>
             if r = DISP_CHANGE_SUCCESSFUL then (True, c1)
             else (case refresh_devices drv c1 0 (EnumDisplayDevices drv) of
                     (c2, refreshed_count) \<Rightarrow> (refreshed_count > 0, c2)))"

text \<open>
  The replay loop of \<^verbatim>\<open>restore_all_screens\<close> over the saved entries: a device that is
  still listed gets its saved geometry written into its current (else registry) mode.
\<close>

fun restore_devices ::
  "driver \<Rightarrow> str list \<Rightarrow> controller \<Rightarrow> nat \<Rightarrow> (str \<times> original) list \<Rightarrow> controller \<times> nat" where
  "restore_devices drv available_devices c restored_count [] = (c, restored_count)"
| "restore_devices drv available_devices c restored_count ((device_name, orig) # rest) =
     (if device_name \<notin> set available_devices
      then restore_devices drv available_devices c restored_count rest
      else
        (case (case EnumDisplaySettings drv (effects c) device_name ENUM_CURRENT_SETTINGS of
                 Some s \<Rightarrow> Some s
               | None \<Rightarrow> EnumDisplaySettings drv (effects c) device_name ENUM_REGISTRY_SETTINGS) of
           None \<Rightarrow> restore_devices drv available_devices c restored_count rest
         | Some current_settings \<Rightarrow>
             (let new_settings = current_settings\<lparr>PelsWidth := orig_width orig,
                                   PelsHeight := orig_height orig,
                                   Position_x := position_x orig,
                                   Position_y := position_y orig,
                                   Fields := {DM_PELSWIDTH, DM_PELSHEIGHT, DM_POSITION}\<rparr>;
                  result = ChangeDisplaySettingsEx drv (effects c) device_name
                             new_settings CDS_UPDATEREGISTRY;
                  c' = add_effect c (Call_ChangeDisplaySettingsEx device_name
                                       new_settings CDS_UPDATEREGISTRY)
              in restore_devices drv available_devices c'
                   (if result = Some DISP_CHANGE_SUCCESSFUL then restored_count + 1
                    else restored_count) rest)))"

definition restore_all_screens :: "driver \<Rightarrow> controller \<Rightarrow> controller" where
  "restore_all_screens drv c =
     (case original_settings c of
        None \<Rightarrow> c
      | Some al \<Rightarrow>
          if al = [] then c
          else
            (case force_refresh_displays drv c of
               (ok, c1) \<Rightarrow>
                 if ok then c1\<lparr>original_settings := Some []\<rparr>
                 else
                   (let available_devices = filter (\<lambda>d. d \<noteq> []) (EnumDisplayDevices drv)
                    in case restore_devices drv available_devices c1 0 al of
                         (c2, restored_count) \<Rightarrow>
                           if restored_count > 0 then c2\<lparr>original_settings := Some []\<rparr>
                           else c2)))"

text \<open>
  \<^verbatim>\<open>reset_displays\<close>; the flag tells that \<^verbatim>\<open>refresh_screens\<close> ran, so that the list
  of preview widgets a tick is iterating has been emptied.
\<close>

definition reset_displays :: "driver \<Rightarrow> controller \<Rightarrow> controller \<times> bool" where
  "reset_displays drv c =
     (case force_refresh_displays drv c of
        (ok, c1) \<Rightarrow>
          if ok then
            (add_effect (c1\<lparr>original_settings := map_option (\<lambda>_. []) (original_settings c1)\<rparr>)
               Call_refresh_screens, True)
          else (c1, False))"

subsection \<open>The scheduler tick\<close>

text \<open>
  The body of the inner \<^verbatim>\<open>try\<close> of \<^verbatim>\<open>check_auto_screen_off\<close> for one widget. \<open>Inl\<close> is
  an exception that reaches the handler of that \<^verbatim>\<open>try\<close>; every raising step comes
  before the first effect, so the controller is then the one the body started with.
\<close>

definition check_widget ::
  "runtime \<Rightarrow> driver \<Rightarrow> int \<times> int \<times> int \<Rightarrow> controller \<Rightarrow> widget_info
     \<Rightarrow> exn + (controller \<times> bool)" where
  "check_widget rt drv now c wi =
     (if \<not> wauto_enabled wi then Inr (c, False)
      else
        (case widget_in_sleep_time rt now wi of
           Inl e \<Rightarrow> Inl e
         | Inr in_sleep \<Rightarrow>
             if in_sleep then
               (if is_monitor_on drv c (wmonitor wi)
                then Inr (turn_off_screen drv c (wmonitor wi), False)
                else Inr (c, False))
             else
               (if \<not> is_monitor_on drv c (wmonitor wi)
                then Inr (reset_displays drv c)
                else Inr (c, False))))"

text \<open>
  The \<^verbatim>\<open>for\<close> loop: \<^verbatim>\<open>except Exception: continue\<close>, and the end of the iteration once
  the list has been emptied under it.
\<close>

fun check_widgets ::
  "runtime \<Rightarrow> driver \<Rightarrow> int \<times> int \<times> int \<Rightarrow> controller \<Rightarrow> widget_info list
     \<Rightarrow> controller" where
  "check_widgets rt drv now c [] = c"
| "check_widgets rt drv now c (wi # ws) =
     (case check_widget rt drv now c wi of
        Inl e \<Rightarrow> check_widgets rt drv now c ws
      | Inr (c', emptied) \<Rightarrow> if emptied then c' else check_widgets rt drv now c' ws)"

definition check_auto_screen_off ::
  "runtime \<Rightarrow> driver \<Rightarrow> int \<times> int \<times> int \<Rightarrow> controller \<Rightarrow> widget_info list
     \<Rightarrow> controller" where
  "check_auto_screen_off rt drv now c preview_widgets =
     (if preview_widgets = [] then c else check_widgets rt drv now c preview_widgets)"


subsection \<open>Notions used to state the properties\<close>

text \<open>
  The test that \<^verbatim>\<open>get_device_name_by_monitor\<close> applies to one device, stated on its
  own: the current mode; the registry mode when the current-mode query raises; the saved
  geometry when both raise.
\<close>

definition device_matches :: "driver \<Rightarrow> controller \<Rightarrow> monitor \<Rightarrow> str \<Rightarrow> bool" where
  "device_matches drv c m d =
     (case EnumDisplaySettings drv (effects c) d ENUM_CURRENT_SETTINGS of
        Some settings \<Rightarrow> mode_matches settings m
      | None \<Rightarrow>
          (case EnumDisplaySettings drv (effects c) d ENUM_REGISTRY_SETTINGS of
             Some settings \<Rightarrow> mode_matches settings m
           | None \<Rightarrow>
               (case saved_lookup c d of
                  Some orig \<Rightarrow> original_matches orig m
                | None \<Rightarrow> False)))"

text \<open>
  The saved geometry the program finds for a monitor: it resolves the device name and
  indexes \<^verbatim>\<open>self.original_settings\<close> with it (\<^verbatim>\<open>is_monitor_on\<close>, \<^verbatim>\<open>set_extend_mode_api\<close>).
\<close>

definition saved_geometry_for :: "driver \<Rightarrow> controller \<Rightarrow> monitor \<Rightarrow> original option" where
  "saved_geometry_for drv c m =
     (case get_device_name_by_monitor drv c m of
        None \<Rightarrow> None
      | Some device_name \<Rightarrow> saved_lookup c device_name)"

text \<open>
  The effects \<open>es\<close> follow the history \<open>h\<close>. Effect \<open>i\<close> re-applies a current mode when
  it is a mode change with \<^verbatim>\<open>CDS_UPDATEREGISTRY\<close> to the mode that the device reported,
  not blank, at that moment; it is accepted when the driver answered it, at that
  moment, with \<^verbatim>\<open>DISP_CHANGE_SUCCESSFUL\<close>.
\<close>

definition reapplied_at :: "driver \<Rightarrow> effect list \<Rightarrow> effect list \<Rightarrow> nat \<Rightarrow> bool" where
  "reapplied_at drv h es i =
     (case es ! i of
        Call_ChangeDisplaySettingsEx d dm fl \<Rightarrow>
          fl = CDS_UPDATEREGISTRY
          \<and> EnumDisplaySettings drv (h @ take i es) d ENUM_CURRENT_SETTINGS = Some dm
          \<and> 0 < PelsWidth dm \<and> 0 < PelsHeight dm
      | _ \<Rightarrow> False)"

definition accepted_at :: "driver \<Rightarrow> effect list \<Rightarrow> effect list \<Rightarrow> nat \<Rightarrow> bool" where
  "accepted_at drv h es i =
     (case es ! i of
        Call_ChangeDisplaySettingsEx d dm fl \<Rightarrow>
          ChangeDisplaySettingsEx drv (h @ take i es) d dm fl = Some DISP_CHANGE_SUCCESSFUL
      | _ \<Rightarrow> False)"

text \<open>
  The re-application for a device whose current mode is \<open>cur d\<close> whatever the history:
  none when the query raises or the mode is blank.
\<close>

definition reapply :: "(str \<Rightarrow> devmode option) \<Rightarrow> str \<Rightarrow> effect option" where
  "reapply cur d =
     (case cur d of
        Some dm \<Rightarrow>
          if 0 < PelsWidth dm \<and> 0 < PelsHeight dm
          then Some (Call_ChangeDisplaySettingsEx d dm CDS_UPDATEREGISTRY) else None
      | None \<Rightarrow> None)"

subsection \<open>Concrete interpreter, displays, drivers and widgets\<close>

text \<open>
  An interpreter for the examples: the blanks of Unicode beyond ASCII; of the decimal
  digits beyond ASCII, the Arabic-Indic and the full-width ones; a casing that changes
  ASCII letters only; at most 4300 digits; sleeps of at most 9223372036 seconds. The
  strings of the examples are ASCII, for which none of the tables is consulted.
\<close>

definition rt_sample :: runtime where
  "rt_sample =
     \<lparr>unicode_isspace =
        (\<lambda>c. c \<in> set [133, 160, 5760, 8232, 8233, 8239, 8287, 12288] \<or> (8192 \<le> c \<and> c \<le> 8202)),
      unicode_todecimal =
        (\<lambda>c. if 1632 \<le> c \<and> c \<le> 1641 then Some (c - 1632)
             else if 65296 \<le> c \<and> c \<le> 65305 then Some (c - 65296) else None),
      unicode_lower = map lower_ascii,
      int_max_str_digits = 4300,
      sleep_max = 9223372036\<rparr>"

definition monitor_B :: monitor where
  "monitor_B = \<lparr>mon_id = 1, name = ascii ''DELL U2414H'', width = 1920, height = 1080,
                 x = 0, y = 0, is_primary = True\<rparr>"


definition mode_1920 :: devmode where
  "mode_1920 = \<lparr>PelsWidth = 1920, PelsHeight = 1080, Position_x = 0, Position_y = 0, Fields = {}\<rparr>"


definition mode_1280 :: devmode where
  "mode_1280 = \<lparr>PelsWidth = 1280, PelsHeight = 720, Position_x = 0, Position_y = 0, Fields = {}\<rparr>"

definition mode_zero :: devmode where
  "mode_zero = \<lparr>PelsWidth = 0, PelsHeight = 0, Position_x = 0, Position_y = 0, Fields = {}\<rparr>"

definition saved_1920 :: original where
  "saved_1920 = \<lparr>orig_width = 1920, orig_height = 1080, position_x = 0, position_y = 0\<rparr>"


text \<open>
  No saved geometry yet; the geometry of \<open>DISPLAY1\<close> saved by an earlier blank; the
  geometries of \<open>DISPLAY1\<close> and \<open>DISPLAY2\<close> saved.
\<close>

definition c_fresh :: controller where
  "c_fresh = \<lparr>original_settings = None, effects = []\<rparr>"

definition c_blanked :: controller where
  "c_blanked = \<lparr>original_settings = Some [(ascii ''DISPLAY1'', saved_1920)], effects = []\<rparr>"


text \<open>One device, awake at 1920x1080; every mode change succeeds.\<close>

definition drv_awake :: driver where
  "drv_awake =
     \<lparr>EnumDisplayDevices = [ascii ''DISPLAY1''],
      EnumDisplaySettings = (\<lambda>h d k. if d = ascii ''DISPLAY1'' then Some mode_1920 else None),
      ChangeDisplaySettingsEx = (\<lambda>h d dm fl. Some DISP_CHANGE_SUCCESSFUL),
      ChangeDisplaySettings = (\<lambda>h. Some DISP_CHANGE_SUCCESSFUL)\<rparr>"

text \<open>
  One device that reports 1920x1080; the process-wide refresh is rejected, a mode change
  of the device succeeds.
\<close>

definition drv_stale :: driver where
  "drv_stale =
     \<lparr>EnumDisplayDevices = [ascii ''DISPLAY1''],
      EnumDisplaySettings = (\<lambda>h d k. if d = ascii ''DISPLAY1'' then Some mode_1920 else None),
      ChangeDisplaySettingsEx = (\<lambda>h d dm fl. Some DISP_CHANGE_SUCCESSFUL),
      ChangeDisplaySettings = (\<lambda>h. Some (DISP_CHANGE_ERROR (- 1)))\<rparr>"

text \<open>
  One blanked device: its current-mode query raises, the registry still holds
  1920x1080; the process-wide refresh is rejected, a mode change of the device succeeds.
\<close>

definition drv_blanked :: driver where
  "drv_blanked =
     \<lparr>EnumDisplayDevices = [ascii ''DISPLAY1''],
      EnumDisplaySettings =
        (\<lambda>h d k. if d = ascii ''DISPLAY1'' \<and> k = ENUM_REGISTRY_SETTINGS then Some mode_1920
                 else None),
      ChangeDisplaySettingsEx = (\<lambda>h d dm fl. Some DISP_CHANGE_SUCCESSFUL),
      ChangeDisplaySettings = (\<lambda>h. Some (DISP_CHANGE_ERROR (- 1)))\<rparr>"

text \<open>The same blanked device after the system has renamed it \<open>DISPLAY2\<close>.\<close>

definition drv_renamed :: driver where
  "drv_renamed =
     \<lparr>EnumDisplayDevices = [ascii ''DISPLAY2''],
      EnumDisplaySettings =
        (\<lambda>h d k. if d = ascii ''DISPLAY2'' \<and> k = ENUM_REGISTRY_SETTINGS then Some mode_1920
                 else None),
      ChangeDisplaySettingsEx = (\<lambda>h d dm fl. Some DISP_CHANGE_SUCCESSFUL),
      ChangeDisplaySettings = (\<lambda>h. Some (DISP_CHANGE_ERROR (- 1)))\<rparr>"


text \<open>One blanked device whose current-mode query returns the zero-size mode.\<close>

definition drv_zero :: driver where
  "drv_zero =
     \<lparr>EnumDisplayDevices = [ascii ''DISPLAY1''],
      EnumDisplaySettings = (\<lambda>h d k. if d = ascii ''DISPLAY1'' then Some mode_zero else None),
      ChangeDisplaySettingsEx = (\<lambda>h d dm fl. Some DISP_CHANGE_SUCCESSFUL),
      ChangeDisplaySettings = (\<lambda>h. Some DISP_CHANGE_SUCCESSFUL)\<rparr>"

text \<open>One device running at 1280x720, which is not the geometry of \<open>monitor_B\<close>.\<close>

definition drv_other :: driver where
  "drv_other =
     \<lparr>EnumDisplayDevices = [ascii ''DISPLAY1''],
      EnumDisplaySettings = (\<lambda>h d k. if d = ascii ''DISPLAY1'' then Some mode_1280 else None),
      ChangeDisplaySettingsEx = (\<lambda>h d dm fl. Some DISP_CHANGE_SUCCESSFUL),
      ChangeDisplaySettings = (\<lambda>h. Some DISP_CHANGE_SUCCESSFUL)\<rparr>"

text \<open>No display device at all.\<close>

definition drv_none :: driver where
  "drv_none =
     \<lparr>EnumDisplayDevices = [],
      EnumDisplaySettings = (\<lambda>h d k. None),
      ChangeDisplaySettingsEx = (\<lambda>h d dm fl. None),
      ChangeDisplaySettings = (\<lambda>h. None)\<rparr>"


text \<open>Widgets with the window 22:00:00 to 07:00:00.\<close>

definition widget_B :: widget_info where
  "widget_B = \<lparr>wmonitor = monitor_B, wauto_enabled = True,
               start_hour_var = ascii ''22'', start_min_var = ascii ''00'',
               start_sec_var = ascii ''00'', end_hour_var = ascii ''07'',
               end_min_var = ascii ''00'', end_sec_var = ascii ''00''\<rparr>"




text \<open>
  Parsers with a section for \<open>monitor_B\<close>: without options; with a flag that is no
  boolean word; with a stored start time; with a start time that ends in a lone percent
  sign; with a start time that refers to the end time, which only the default section
  has.
\<close>

definition cfg_bare :: config_parser where
  "cfg_bare = \<lparr>defaults = Map.empty,
               sections = [ascii ''DELL U2414H_1920x1080'' \<mapsto> Map.empty]\<rparr>"

definition cfg_badflag :: config_parser where
  "cfg_badflag =
     \<lparr>defaults = Map.empty,
      sections = [ascii ''DELL U2414H_1920x1080'' \<mapsto> [ascii ''auto_enabled'' \<mapsto> ascii ''maybe'']]\<rparr>"

definition cfg_stored :: config_parser where
  "cfg_stored =
     \<lparr>defaults = Map.empty,
      sections = [ascii ''DELL U2414H_1920x1080'' \<mapsto> [ascii ''start_time'' \<mapsto> ascii ''21:30:00'']]\<rparr>"

definition cfg_percent :: config_parser where
  "cfg_percent =
     \<lparr>defaults = Map.empty,
      sections = [ascii ''DELL U2414H_1920x1080'' \<mapsto> [ascii ''start_time'' \<mapsto> ascii ''50%'']]\<rparr>"

definition cfg_refers :: config_parser where
  "cfg_refers =
     \<lparr>defaults = [ascii ''end_time'' \<mapsto> ascii ''06:00:00''],
      sections = [ascii ''DELL U2414H_1920x1080'' \<mapsto>
                    [ascii ''start_time'' \<mapsto> ascii ''%(end_time)s'']]\<rparr>"

section \<open>Evaluation of the concrete inputs\<close>

lemma ascii_eq_Nil [simp]: "(ascii s = []) = (s = [])" "([] = ascii s) = (s = [])"
  by (auto simp: ascii_def)

lemma ascii_eq_iff [simp]: "(ascii s = ascii t) = (s = t)"
proof -
  have "inj (of_char :: char \<Rightarrow> nat)" by (simp add: inj_def)
  then show ?thesis unfolding ascii_def by (rule inj_map_eq_map)
qed

lemmas int_defs = int_var_def py_int_def strip_def py_isspace_def parse_nat_def is_digit_def
  digit_val_def to_ascii_def too_many_digits_def ascii_def

lemma int_var_22: "int_var rt (ascii ''22'') = Inr 22" by (simp add: int_defs)

lemma int_var_00: "int_var rt (ascii ''00'') = Inr 0" by (simp add: int_defs)

lemma int_var_07: "int_var rt (ascii ''07'') = Inr 7" by (simp add: int_defs)

lemma int_var_17: "int_var rt (ascii ''17'') = Inr 17" by (simp add: int_defs)

lemma int_var_0: "int_var rt (ascii ''0'') = Inr 0" by (simp add: int_defs)

lemma int_var_7: "int_var rt (ascii ''7'') = Inr 7" by (simp add: int_defs)


lemma widget_B_times: "widget_times rt widget_B = Inr (79200, 25200)"
  by (simp add: widget_times_def widget_B_def int_var_22 int_var_00 int_var_07 total_sec_def)


lemma widget_B_noon: "widget_in_sleep_time rt (12, 0, 0) widget_B = Inr False"
  by (simp add: widget_in_sleep_time_def widget_B_times in_sleep_time_def total_sec_def)



lemma widget_B_enabled: "wauto_enabled widget_B" "wmonitor widget_B = monitor_B"
  by (simp_all add: widget_B_def)




lemma key_B: "get_monitor_config_key monitor_B = ascii ''DELL U2414H_1920x1080''"
  by (simp add: get_monitor_config_key_def monitor_B_def str_int_def str_nat.simps ascii_def)

lemma lower_options:
  "lower rt (ascii ''auto_enabled'') = ascii ''auto_enabled''"
  "lower rt (ascii ''start_time'') = ascii ''start_time''"
  "lower rt (ascii ''end_time'') = ascii ''end_time''"
  by (simp_all add: lower_def lower_ascii_def ascii_def)

lemma interpolate_plain:
  "37 \<notin> set v \<Longrightarrow> depth \<le> 10 \<Longrightarrow> interpolate_some rt d depth v = Some v"
proof -
  assume a: "37 \<notin> set v" and b: "depth \<le> 10"
  from a have dw: "dropWhile (\<lambda>c. c \<noteq> 37) v = []" by auto
  from b show ?thesis by (subst interpolate_some.simps, subst dw) simp
qed

lemma before_get_plain: "37 \<notin> set v \<Longrightarrow> before_get rt d v = Some v"
  by (simp add: before_get_def interpolate_plain)



section \<open>Evaluation of the concrete drivers\<close>

lemma resolve_blanked: "get_device_name_by_monitor drv_blanked c monitor_B = Some (ascii ''DISPLAY1'')"
  by (simp add: get_device_name_by_monitor_def drv_blanked_def monitor_B_def mode_matches_def
      mode_1920_def)

lemma resolve_awake: "get_device_name_by_monitor drv_awake c monitor_B = Some (ascii ''DISPLAY1'')"
  by (simp add: get_device_name_by_monitor_def drv_awake_def monitor_B_def mode_matches_def
      mode_1920_def)

lemma resolve_none: "get_device_name_by_monitor drv_none c m = None"
  by (simp add: get_device_name_by_monitor_def drv_none_def enum_device_def)

lemma not_on_blanked: "\<not> is_monitor_on drv_blanked c_blanked monitor_B"
  by (simp add: is_monitor_on_def get_device_name_by_monitor_def drv_blanked_def monitor_B_def
      mode_matches_def mode_1920_def saved_lookup_def c_blanked_def)

lemma force_refresh_blanked:
  "force_refresh_displays drv_blanked c_blanked
     = (False, c_blanked\<lparr>effects := [Call_ChangeDisplaySettings]\<rparr>)"
  by (simp add: force_refresh_displays_def drv_blanked_def c_blanked_def add_effect_def)

lemma reset_blanked:
  "reset_displays drv_blanked c_blanked
     = (c_blanked\<lparr>effects := [Call_ChangeDisplaySettings]\<rparr>, False)"
  by (simp add: reset_displays_def force_refresh_blanked)

lemma not_on_zero: "\<not> is_monitor_on drv_zero c_blanked monitor_B"
  by (simp add: is_monitor_on_def get_device_name_by_monitor_def drv_zero_def monitor_B_def
      mode_matches_def mode_zero_def saved_lookup_def c_blanked_def enum_device_def)

lemma reset_zero:
  "reset_displays drv_zero c_blanked
     = (\<lparr>original_settings = Some [],
         effects = [Call_ChangeDisplaySettings, Call_refresh_screens]\<rparr>, True)"
  by (simp add: reset_displays_def force_refresh_displays_def drv_zero_def c_blanked_def
      add_effect_def)

lemma tick_blanked_noon:
  "check_auto_screen_off rt_sample drv_blanked (12, 0, 0) c_blanked [widget_B]
     = c_blanked\<lparr>effects := [Call_ChangeDisplaySettings]\<rparr>"
  by (simp add: check_auto_screen_off_def check_widget_def widget_B_enabled widget_B_noon
      not_on_blanked reset_blanked)

lemma restore_all_blanked:
  "restore_all_screens drv_blanked c_blanked =
     \<lparr>original_settings = Some [],
      effects = [Call_ChangeDisplaySettings,
                 Call_ChangeDisplaySettingsEx (ascii ''DISPLAY1'')
                   (mode_1920\<lparr>Fields := {DM_PELSWIDTH, DM_PELSHEIGHT, DM_POSITION}\<rparr>)
                   CDS_UPDATEREGISTRY]\<rparr>"
proof -
  have o: "original_settings c_blanked = Some [((ascii ''DISPLAY1''), saved_1920)]"
    by (simp add: c_blanked_def)
  have d: "EnumDisplayDevices drv_blanked = [(ascii ''DISPLAY1'')]"
    "\<And>h. EnumDisplaySettings drv_blanked h (ascii ''DISPLAY1'') ENUM_CURRENT_SETTINGS = None"
    "\<And>h. EnumDisplaySettings drv_blanked h (ascii ''DISPLAY1'') ENUM_REGISTRY_SETTINGS = Some mode_1920"
    "\<And>h d dm fl. ChangeDisplaySettingsEx drv_blanked h d dm fl = Some DISP_CHANGE_SUCCESSFUL"
    by (simp_all add: drv_blanked_def)
  show ?thesis
    by (simp add: restore_all_screens_def o force_refresh_blanked d Let_def add_effect_def)
       (simp add: c_blanked_def mode_1920_def saved_1920_def)
qed

section \<open>The blank window\<close>

text \<open>
  C1. For start, end and now as seconds of the day (hour * 3600 + minute * 60 + second),
  the in-window test of a tick is: if start \<le> end then start \<le> now \<le> end, otherwise
  now \<ge> start or now \<le> end; both boundaries belong to the window in each case.
\<close>

theorem in_window_test:
  assumes "int_var rt (start_hour_var wi) = Inr sh" and "int_var rt (start_min_var wi) = Inr sm"
    and "int_var rt (start_sec_var wi) = Inr ss" and "int_var rt (end_hour_var wi) = Inr eh"
    and "int_var rt (end_min_var wi) = Inr em" and "int_var rt (end_sec_var wi) = Inr es"
    and "start = sh * 3600 + sm * 60 + ss" and "en = eh * 3600 + em * 60 + es"
    and "nowSeconds = hour * 3600 + mi * 60 + sec"
  shows "widget_in_sleep_time rt (hour, mi, sec) wi =
           Inr (if start \<le> en then start \<le> nowSeconds \<and> nowSeconds \<le> en
                else nowSeconds \<ge> start \<or> nowSeconds \<le> en)
         \<and> in_sleep_time start en start \<and> in_sleep_time start en en"
  using assms by (simp add: widget_in_sleep_time_def widget_times_def in_sleep_time_def total_sec_def)

theorem in_window_test_witness:
  "widget_in_sleep_time rt_sample (23, 30, 0) widget_B = Inr True
   \<and> widget_in_sleep_time rt_sample (12, 0, 0) widget_B = Inr False
   \<and> widget_in_sleep_time rt_sample (7, 0, 0) widget_B = Inr True"
proof -
  have v: "int_var rt_sample (start_hour_var widget_B) = Inr 22" "int_var rt_sample (start_min_var widget_B) = Inr 0"
    "int_var rt_sample (start_sec_var widget_B) = Inr 0" "int_var rt_sample (end_hour_var widget_B) = Inr 7"
    "int_var rt_sample (end_min_var widget_B) = Inr 0" "int_var rt_sample (end_sec_var widget_B) = Inr 0"
    by (simp_all add: widget_B_def int_var_22 int_var_00 int_var_07)
  have a: "widget_in_sleep_time rt_sample (23, 30, 0) widget_B = Inr True"
    using in_window_test [OF v refl refl refl, of 23 30 0] by simp
  have b: "widget_in_sleep_time rt_sample (12, 0, 0) widget_B = Inr False"
    using in_window_test [OF v refl refl refl, of 12 0 0] by simp
  have c: "widget_in_sleep_time rt_sample (7, 0, 0) widget_B = Inr True"
    using in_window_test [OF v refl refl refl, of 7 0 0] by simp
  from a b c show ?thesis by simp
qed

section \<open>The schedule store\<close>

lemma key_not_DEFAULT: "get_monitor_config_key m \<noteq> (ascii ''DEFAULT'')"
proof
  assume "get_monitor_config_key m = (ascii ''DEFAULT'')"
  then have "set (get_monitor_config_key m) = set (ascii ''DEFAULT'')" by simp
  moreover have "95 \<in> set (get_monitor_config_key m)"
    by (simp add: get_monitor_config_key_def ascii_def)
  ultimately show False by (simp add: ascii_def)
qed

lemma default_entry_times:
  "split_colon (start_time default_entry) = [ascii ''17'', ascii ''0'', ascii ''0'']"
  "split_colon (end_time default_entry) = [ascii ''7'', ascii ''0'', ascii ''0'']"
  by (simp_all add: default_entry_def ascii_def)

lemma config_get_unified:
  "unify_values cfg s = Some d \<Longrightarrow>
   config_get rt cfg s opt fb =
     (case d (lower rt opt) of None \<Rightarrow> Inr fb
      | Some v \<Rightarrow> (case before_get rt d v of None \<Rightarrow> Inl InterpolationError
                   | Some v' \<Rightarrow> Inr v'))"
  by (simp add: config_get_def)

lemma config_getboolean_unified:
  "unify_values cfg s = Some d \<Longrightarrow>
   config_getboolean rt cfg s opt fb =
     (case d (lower rt opt) of None \<Rightarrow> Inr fb
      | Some v \<Rightarrow> (case before_get rt d v of None \<Rightarrow> Inl InterpolationError
                   | Some v' \<Rightarrow> convert_to_boolean rt v'))"
  by (simp add: config_getboolean_def)

lemma load_section_reads:
  assumes "unify_values cfg key = Some d"
  shows "load_section rt cfg key =
    (case (case d (ascii ''auto_enabled'') of None \<Rightarrow> Inr False
           | Some v \<Rightarrow> (case before_get rt d v of None \<Rightarrow> Inl InterpolationError
                        | Some v' \<Rightarrow> convert_to_boolean rt v')) of
       Inl e \<Rightarrow> Inl e
     | Inr b \<Rightarrow>
       (case (case d (ascii ''start_time'') of None \<Rightarrow> Inr (ascii ''22:00:00'')
              | Some v \<Rightarrow> (case before_get rt d v of None \<Rightarrow> Inl InterpolationError
                           | Some v' \<Rightarrow> Inr v')) of
          Inl e \<Rightarrow> Inl e
        | Inr s \<Rightarrow>
          (case (case d (ascii ''end_time'') of None \<Rightarrow> Inr (ascii ''08:00:00'')
                 | Some v \<Rightarrow> (case before_get rt d v of None \<Rightarrow> Inl InterpolationError
                              | Some v' \<Rightarrow> Inr v')) of
             Inl e \<Rightarrow> Inl e
           | Inr t \<Rightarrow> Inr \<lparr>auto_enabled = b, start_time = s, end_time = t\<rparr>)))"
  unfolding load_section_def config_get_unified [OF assms] config_getboolean_unified [OF assms]
    lower_options
  by (rule refl)

lemma sections_B:
  "sections cfg_bare (get_monitor_config_key monitor_B) = Some Map.empty"
  "sections cfg_badflag (get_monitor_config_key monitor_B)
     = Some [ascii ''auto_enabled'' \<mapsto> ascii ''maybe'']"
  "sections cfg_stored (get_monitor_config_key monitor_B)
     = Some [ascii ''start_time'' \<mapsto> ascii ''21:30:00'']"
  "sections cfg_percent (get_monitor_config_key monitor_B)
     = Some [ascii ''start_time'' \<mapsto> ascii ''50%'']"
  "sections cfg_refers (get_monitor_config_key monitor_B)
     = Some [ascii ''start_time'' \<mapsto> ascii ''%(end_time)s'']"
  by (simp_all add: key_B cfg_bare_def cfg_badflag_def cfg_stored_def cfg_percent_def
      cfg_refers_def)

lemma maybe_not_boolean: "convert_to_boolean rt (ascii ''maybe'') = Inl ValueError"
  by (simp add: convert_to_boolean_def lower_def lower_ascii_def ascii_def)

lemma load_section_badflag:
  "load_section rt cfg_badflag (get_monitor_config_key monitor_B) = Inl ValueError"
proof -
  have u: "unify_values cfg_badflag (get_monitor_config_key monitor_B)
        = Some (\<lambda>k. case [ascii ''auto_enabled'' \<mapsto> ascii ''maybe''] k of
                       Some v \<Rightarrow> Some v | None \<Rightarrow> defaults cfg_badflag k)"
    by (simp add: unify_values_def sections_B)
  have p: "37 \<notin> set (ascii ''maybe'')" by (simp add: ascii_def)
  show ?thesis
    by (simp add: load_section_reads [OF u] before_get_plain [OF p] maybe_not_boolean)
qed


text \<open>
  C5. For a stable key without a persisted section, loading returns the default entry:
  disabled, start 17:00:00, end 07:00:00 (the strings 17:0:0 and 7:0:0, which the widget
  splits and the tick reads as these times). Loading returns a value in every case: with
  no configuration file the parser is empty and every key gets the default, and an
  exception inside the reads of a section is turned into the default.
\<close>

theorem load_unknown_key_default:
  assumes "\<not> has_section cfg (get_monitor_config_key m)"
  shows "load_monitor_config rt cfg m =
           \<lparr>auto_enabled = False, start_time = (ascii ''17:0:0''), end_time = (ascii ''7:0:0'')\<rparr>
         \<and> \<not> wauto_enabled (create_widget rt cfg m)
         \<and> widget_times rt (create_widget rt cfg m) = Inr (17 * 3600 + 0 * 60 + 0, 7 * 3600 + 0 * 60 + 0)
         \<and> load_monitor_config rt (fst (load_config rt new_config NoFile)) m' = default_entry
         \<and> (\<forall>e cfg'. load_section rt cfg' (get_monitor_config_key m') = Inl e
               \<longrightarrow> load_monitor_config rt cfg' m' = default_entry)"
proof -
  have l: "load_monitor_config rt cfg m = default_entry"
    using assms by (simp add: load_monitor_config_def in_config_def key_not_DEFAULT)
  have w: "create_widget rt cfg m =
      \<lparr>wmonitor = m, wauto_enabled = False,
       start_hour_var = (ascii ''17''), start_min_var = (ascii ''0''), start_sec_var = (ascii ''0''),
       end_hour_var = (ascii ''7''), end_min_var = (ascii ''0''), end_sec_var = (ascii ''0'')\<rparr>"
    by (simp add: create_widget_def l default_entry_times part_or_def Let_def)
       (simp add: default_entry_def)
  have t: "widget_times rt (create_widget rt cfg m) = Inr (17 * 3600 + 0 * 60 + 0, 7 * 3600 + 0 * 60 + 0)"
    by (simp add: w widget_times_def int_var_17 int_var_0 int_var_7 total_sec_def)
  have n: "load_monitor_config rt (fst (load_config rt new_config NoFile)) m' = default_entry"
    by (simp add: load_config_def load_monitor_config_def in_config_def key_not_DEFAULT
        has_section_def new_config_def)
  have r: "\<forall>e cfg'. load_section rt cfg' (get_monitor_config_key m') = Inl e
               \<longrightarrow> load_monitor_config rt cfg' m' = default_entry"
    by (simp add: load_monitor_config_def Let_def)
  from l w t n r show ?thesis by (simp add: default_entry_def)
qed

theorem load_unknown_key_default_witness:
  "\<not> has_section new_config (get_monitor_config_key monitor_B)
   \<and> load_monitor_config rt_sample new_config monitor_B =
       \<lparr>auto_enabled = False, start_time = ascii ''17:0:0'', end_time = ascii ''7:0:0''\<rparr>
   \<and> widget_times rt_sample (create_widget rt_sample new_config monitor_B) = Inr (61200, 25200)
   \<and> load_section rt_sample cfg_badflag (get_monitor_config_key monitor_B) = Inl ValueError
   \<and> load_monitor_config rt_sample cfg_badflag monitor_B = default_entry"
proof -
  have h: "\<not> has_section new_config (get_monitor_config_key monitor_B)"
    by (simp add: has_section_def new_config_def)
  note t = load_unknown_key_default [OF h, where rt = rt_sample and m' = monitor_B]
  have "load_monitor_config rt_sample cfg_badflag monitor_B = default_entry"
    using t load_section_badflag by blast
  then show ?thesis using h t load_section_badflag by simp
qed




section \<open>The stable key\<close>

text \<open>
  C9, as amended. The stable key is a function of the name and the resolution alone:
  two monitor records with the same name, width and height have the same key, whatever
  their other fields and whatever the devices are called, so the schedule entry loaded
  for them is the same. The saved geometry is keyed by the device name, not by the
  stable key: it is found again exactly as far as the monitor resolves to the same
  device name.
\<close>

theorem stable_key_deterministic:
  assumes "name m1 = name m2" and "width m1 = width m2" and "height m1 = height m2"
  shows "get_monitor_config_key m1 = get_monitor_config_key m2
       \<and> load_monitor_config rt cfg m1 = load_monitor_config rt cfg m2
       \<and> (get_device_name_by_monitor drv1 c m1 = get_device_name_by_monitor drv2 c m2
            \<longrightarrow> saved_geometry_for drv1 c m1 = saved_geometry_for drv2 c m2)"
  using assms
  by (simp add: get_monitor_config_key_def load_monitor_config_def saved_geometry_for_def)

theorem stable_key_deterministic_witness:
  "get_monitor_config_key (monitor_B\<lparr>mon_id := 2, x := 1920, is_primary := False\<rparr>)
     = get_monitor_config_key monitor_B
   \<and> load_monitor_config rt_sample cfg_bare (monitor_B\<lparr>mon_id := 2, x := 1920, is_primary := False\<rparr>)
     = load_monitor_config rt_sample cfg_bare monitor_B
   \<and> saved_geometry_for drv_blanked c_blanked (monitor_B\<lparr>is_primary := False\<rparr>)
     = saved_geometry_for drv_blanked c_blanked monitor_B"
proof -
  have r: "get_device_name_by_monitor drv_blanked c_blanked (monitor_B\<lparr>is_primary := False\<rparr>)
           = get_device_name_by_monitor drv_blanked c_blanked monitor_B"
    by (simp add: get_device_name_by_monitor_def drv_blanked_def monitor_B_def mode_matches_def
        mode_1920_def)
  have a: "saved_geometry_for drv_blanked c_blanked (monitor_B\<lparr>is_primary := False\<rparr>)
     = saved_geometry_for drv_blanked c_blanked monitor_B"
    using stable_key_deterministic
      [where ?m1.0 = "monitor_B\<lparr>is_primary := False\<rparr>" and ?m2.0 = monitor_B
       and ?drv1.0 = drv_blanked and ?drv2.0 = drv_blanked and c = c_blanked] r
    by simp
  show ?thesis
    using stable_key_deterministic
      [where ?m1.0 = "monitor_B\<lparr>mon_id := 2, x := 1920, is_primary := False\<rparr>"
       and ?m2.0 = monitor_B and rt = rt_sample and cfg = cfg_bare] a
    by simp
qed

text \<open>
  C9 as stated fails for the saved geometry: the same monitor record (same name, same
  resolution, same stable key) has its saved geometry under the device name
  \<open>DISPLAY1\<close>; once the system lists the device as \<open>DISPLAY2\<close> the program finds none.
\<close>

theorem saved_geometry_rename_counterexample:
  "saved_geometry_for drv_blanked c_blanked monitor_B = Some saved_1920
   \<and> saved_geometry_for drv_renamed c_blanked monitor_B = None"
  by (simp add: saved_geometry_for_def get_device_name_by_monitor_def drv_blanked_def
      drv_renamed_def c_blanked_def monitor_B_def mode_matches_def mode_1920_def
      saved_lookup_def)

section \<open>Device-name resolution\<close>

lemma match_devices_find:
  "match_devices drv c m ds = find (device_matches drv c m) ds"
  by (induction ds) (simp_all add: device_matches_def split: option.splits)

lemma enum_device_None:
  "enum_device drv i = None \<longleftrightarrow> \<not> (0 \<le> i \<and> i < int (length (EnumDisplayDevices drv)))"
  by (auto simp: enum_device_def)

text \<open>
  C6, as amended. Resolution only reads: its result is a function of the driver's
  answers, the saved geometry and the monitor. It returns the first device, in
  enumeration order, whose current mode has the position and size of the monitor; the
  registry mode is compared when the current-mode query fails, and the saved geometry
  when both queries fail. When no device matches it returns the device at index
  id - 1, and nothing only when there is no device at that index either.
\<close>

theorem resolve_device_name:
  "get_device_name_by_monitor drv c m =
     (case find (device_matches drv c m) (EnumDisplayDevices drv) of
        Some d \<Rightarrow> Some d
      | None \<Rightarrow> enum_device drv (mon_id m - 1))
   \<and> (get_device_name_by_monitor drv c m = None \<longleftrightarrow>
        (\<forall>d \<in> set (EnumDisplayDevices drv). \<not> device_matches drv c m d)
        \<and> \<not> (1 \<le> mon_id m \<and> mon_id m \<le> int (length (EnumDisplayDevices drv))))"
proof -
  have a: "get_device_name_by_monitor drv c m =
     (case find (device_matches drv c m) (EnumDisplayDevices drv) of
        Some d \<Rightarrow> Some d
      | None \<Rightarrow> enum_device drv (mon_id m - 1))"
    by (simp add: get_device_name_by_monitor_def match_devices_find)
  have b: "(get_device_name_by_monitor drv c m = None) =
        ((\<forall>d \<in> set (EnumDisplayDevices drv). \<not> device_matches drv c m d)
        \<and> \<not> (1 \<le> mon_id m \<and> mon_id m \<le> int (length (EnumDisplayDevices drv))))"
  proof (cases "find (device_matches drv c m) (EnumDisplayDevices drv)")
    case None
    then have "\<forall>d \<in> set (EnumDisplayDevices drv). \<not> device_matches drv c m d"
      by (simp add: find_None_iff)
    with None show ?thesis by (auto simp: a enum_device_None)
  next
    case (Some d)
    then have "d \<in> set (EnumDisplayDevices drv) \<and> device_matches drv c m d"
      by (auto simp: find_Some_iff)
    with Some show ?thesis by (auto simp: a)
  qed
  from a b show ?thesis by simp
qed

theorem resolve_device_name_witness:
  "get_device_name_by_monitor drv_none c_fresh monitor_B = None"
proof -
  have e: "EnumDisplayDevices drv_none = []" by (simp add: drv_none_def)
  have h: "(\<forall>d \<in> set (EnumDisplayDevices drv_none). \<not> device_matches drv_none c_fresh monitor_B d)
        \<and> \<not> (1 \<le> mon_id monitor_B
             \<and> mon_id monitor_B \<le> int (length (EnumDisplayDevices drv_none)))"
    by (simp add: e monitor_B_def)
  show ?thesis
    using resolve_device_name [of drv_none c_fresh monitor_B] h by blast
qed

text \<open>
  C6 as stated fails when no device matches: the only device runs at 1280x720, the
  monitor is 1920x1080 with id 1, and the resolution returns that device.
\<close>

theorem index_fallback_counterexample:
  "EnumDisplayDevices drv_other = [(ascii ''DISPLAY1'')]
   \<and> \<not> device_matches drv_other c_fresh monitor_B (ascii ''DISPLAY1'')
   \<and> get_device_name_by_monitor drv_other c_fresh monitor_B = Some (ascii ''DISPLAY1'')"
  by (simp add: drv_other_def device_matches_def mode_matches_def mode_1280_def monitor_B_def
      get_device_name_by_monitor_def enum_device_def)

section \<open>The state query\<close>

text \<open>
  C3. \<^verbatim>\<open>is_monitor_on\<close> answers awake when the device name cannot be resolved (no
  name, or an empty one); otherwise blanked whenever a saved geometry exists for the
  resolved device, whatever the mode query would report; otherwise awake exactly when
  the current-mode query succeeds with nonzero width and height; and blanked when the
  mode query fails.
\<close>

theorem is_monitor_on_cases:
  "(get_device_name_by_monitor drv c m = None \<or> get_device_name_by_monitor drv c m = Some []
      \<longrightarrow> is_monitor_on drv c m)
   \<and> (\<forall>d. get_device_name_by_monitor drv c m = Some d \<and> d \<noteq> [] \<and> saved_lookup c d \<noteq> None
      \<longrightarrow> \<not> is_monitor_on drv c m)
   \<and> (\<forall>d. get_device_name_by_monitor drv c m = Some d \<and> d \<noteq> [] \<and> saved_lookup c d = None
      \<longrightarrow> is_monitor_on drv c m =
            (\<exists>s. EnumDisplaySettings drv (effects c) d ENUM_CURRENT_SETTINGS = Some s
                 \<and> PelsWidth s \<noteq> 0 \<and> PelsHeight s \<noteq> 0))
   \<and> (\<forall>d. get_device_name_by_monitor drv c m = Some d \<and> d \<noteq> []
           \<and> EnumDisplaySettings drv (effects c) d ENUM_CURRENT_SETTINGS = None
      \<longrightarrow> \<not> is_monitor_on drv c m)"
  by (auto simp: is_monitor_on_def split: option.splits)

theorem is_monitor_on_cases_witness:
  "is_monitor_on drv_none c_fresh monitor_B
   \<and> \<not> is_monitor_on drv_blanked c_blanked monitor_B
   \<and> is_monitor_on drv_awake c_fresh monitor_B
   \<and> \<not> is_monitor_on drv_blanked c_fresh monitor_B"
proof -
  have a: "is_monitor_on drv_none c_fresh monitor_B"
    using is_monitor_on_cases [of drv_none c_fresh monitor_B] by (simp add: resolve_none)
  have b: "\<not> is_monitor_on drv_blanked c_blanked monitor_B"
    using is_monitor_on_cases [of drv_blanked c_blanked monitor_B]
    by (simp add: resolve_blanked saved_lookup_def c_blanked_def)
  have q: "EnumDisplaySettings drv_awake (effects c_fresh) (ascii ''DISPLAY1'') ENUM_CURRENT_SETTINGS
           = Some mode_1920"
    by (simp add: drv_awake_def)
  have c: "is_monitor_on drv_awake c_fresh monitor_B"
    using is_monitor_on_cases [of drv_awake c_fresh monitor_B] q
    by (simp add: resolve_awake saved_lookup_def c_fresh_def mode_1920_def)
  have q': "EnumDisplaySettings drv_blanked (effects c_fresh) (ascii ''DISPLAY1'') ENUM_CURRENT_SETTINGS
           = None"
    by (simp add: drv_blanked_def)
  have d: "\<not> is_monitor_on drv_blanked c_fresh monitor_B"
    using is_monitor_on_cases [of drv_blanked c_fresh monitor_B] q'
    by (simp add: resolve_blanked)
  from a b c d show ?thesis by simp
qed

section \<open>Blank\<close>

text \<open>
  C4. The capture in \<^verbatim>\<open>turn_off_screen\<close> is not guarded. The monitor is already
  blanked: the geometry 1920x1080 of its device is saved and its current mode reads
  0x0. The blank operation (the manual button calls it without any test) replaces the
  saved geometry by the zero-size reading.
\<close>

theorem blank_overwrites_saved_geometry:
  "\<not> is_monitor_on drv_zero c_blanked monitor_B
   \<and> saved_lookup c_blanked (ascii ''DISPLAY1'')
       = Some \<lparr>orig_width = 1920, orig_height = 1080, position_x = 0, position_y = 0\<rparr>
   \<and> saved_lookup (turn_off_screen drv_zero c_blanked monitor_B) (ascii ''DISPLAY1'')
       = Some \<lparr>orig_width = 0, orig_height = 0, position_x = 0, position_y = 0\<rparr>"
proof -
  have r: "get_device_name_by_monitor drv_zero c_blanked monitor_B = Some (ascii ''DISPLAY1'')"
    by (simp add: get_device_name_by_monitor_def drv_zero_def mode_matches_def mode_zero_def
        monitor_B_def enum_device_def)
  have q: "\<And>h. EnumDisplaySettings drv_zero h (ascii ''DISPLAY1'') ENUM_CURRENT_SETTINGS = Some mode_zero"
    by (simp add: drv_zero_def)
  have z: "\<And>h d dm fl. ChangeDisplaySettingsEx drv_zero h d dm fl = Some DISP_CHANGE_SUCCESSFUL"
    by (simp add: drv_zero_def)
  have s: "saved_lookup c_blanked (ascii ''DISPLAY1'') = Some saved_1920"
    by (simp add: saved_lookup_def c_blanked_def)
  have a: "\<not> is_monitor_on drv_zero c_blanked monitor_B"
    by (simp add: is_monitor_on_def r s)
  have b: "saved_lookup (turn_off_screen drv_zero c_blanked monitor_B) (ascii ''DISPLAY1'')
       = Some \<lparr>orig_width = 0, orig_height = 0, position_x = 0, position_y = 0\<rparr>"
    by (simp add: turn_off_screen_def r q z Let_def)
       (simp add: saved_lookup_def add_effect_def c_blanked_def mode_zero_def)
  from a b s show ?thesis by (simp add: saved_1920_def)
qed

text \<open>
  The scheduler does guard the capture: it blanks only after \<^verbatim>\<open>is_monitor_on\<close>, so
  a tick leaves every saved entry as it was, and an entry it adds is not zero-size.
\<close>

lemma tick_blank_is_guarded:
  assumes "check_widget rt drv now c wi = Inr (c', b)"
    and "widget_in_sleep_time rt now wi = Inr True"
    and "saved_lookup c' d = Some g"
  shows "saved_lookup c d = Some g
       \<or> (saved_lookup c d = None \<and> 0 < orig_width g \<and> 0 < orig_height g)"
  using assms
  by (auto simp: check_widget_def is_monitor_on_def turn_off_screen_def saved_lookup_def
      add_effect_def Let_def update_conv' split: option.splits if_splits)

section \<open>Restore\<close>

lemma count_upt_Suc:
  "length (filter P [0..<Suc n]) = (if P 0 then 1 else 0) + length (filter (\<lambda>i. P (Suc i)) [0..<n])"
proof -
  have "[0..<Suc n] = 0 # map Suc [0..<n]"
    by (simp add: upt_conv_Cons map_Suc_upt del: upt_Suc)
  then have "filter P [0..<Suc n] = filter P (0 # map Suc [0..<n])" by (rule arg_cong)
  then show ?thesis by (simp add: filter_map comp_def del: upt_Suc)
qed

lemma history_shift: "h @ take (Suc i) (e # es) = (h @ [e]) @ take i es"
  by simp

lemma reapplied_at_Suc:
  "reapplied_at drv h (e # es) (Suc i) = reapplied_at drv (h @ [e]) es i"
  unfolding reapplied_at_def history_shift nth_Cons_Suc by (rule refl)

lemma reapplied_at_0:
  "reapplied_at drv h (Call_ChangeDisplaySettingsEx d dm fl # es) 0 =
     (fl = CDS_UPDATEREGISTRY \<and> EnumDisplaySettings drv h d ENUM_CURRENT_SETTINGS = Some dm
      \<and> 0 < PelsWidth dm \<and> 0 < PelsHeight dm)"
  by (simp add: reapplied_at_def)

lemma accepted_at_Suc:
  "accepted_at drv h (e # es) (Suc i) = accepted_at drv (h @ [e]) es i"
  unfolding accepted_at_def history_shift nth_Cons_Suc by (rule refl)

lemma accepted_at_0:
  "accepted_at drv h (Call_ChangeDisplaySettingsEx d dm fl # es) 0 =
     (ChangeDisplaySettingsEx drv h d dm fl = Some DISP_CHANGE_SUCCESSFUL)"
  by (simp add: accepted_at_def)

lemma refresh_devices_trace:
  "refresh_devices drv c n ds = (c', n') \<Longrightarrow>
   original_settings c' = original_settings c
   \<and> (\<exists>es. effects c' = effects c @ es
          \<and> (\<forall>i<length es. reapplied_at drv (effects c) es i)
          \<and> n' = n + length (filter (accepted_at drv (effects c) es) [0..<length es]))"
proof (induction ds arbitrary: c n)
  case Nil
  then show ?case by simp
next
  case (Cons d ds)
  show ?case
  proof (cases "d = []")
    case True
    with Cons.prems show ?thesis by simp
  next
    case named: False
    show ?thesis
    proof (cases "EnumDisplaySettings drv (effects c) d ENUM_CURRENT_SETTINGS")
      case None
      with named Cons.prems have "refresh_devices drv c n ds = (c', n')" by simp
      then show ?thesis by (rule Cons.IH)
    next
      case (Some cs)
      show ?thesis
      proof (cases "0 < PelsWidth cs \<and> 0 < PelsHeight cs")
        case False
        with named Some Cons.prems have "refresh_devices drv c n ds = (c', n')" by auto
        then show ?thesis by (rule Cons.IH)
      next
        case True
        define e0 where "e0 = Call_ChangeDisplaySettingsEx d cs CDS_UPDATEREGISTRY"
        define n0 where "n0 = (if ChangeDisplaySettingsEx drv (effects c) d cs CDS_UPDATEREGISTRY
                                  = Some DISP_CHANGE_SUCCESSFUL then n + 1 else n)"
        from named Some True Cons.prems
        have "refresh_devices drv (add_effect c e0) n0 ds = (c', n')"
          by (simp add: e0_def n0_def Let_def)
        from Cons.IH [OF this]
        obtain es where o: "original_settings c' = original_settings (add_effect c e0)"
          and es: "effects c' = effects (add_effect c e0) @ es"
          and all: "\<forall>i<length es. reapplied_at drv (effects (add_effect c e0)) es i"
          and cnt: "n' = n0 + length (filter (accepted_at drv (effects (add_effect c e0)) es)
                                       [0..<length es])"
          by blast
        have h: "effects (add_effect c e0) = effects c @ [e0]"
          by (simp add: add_effect_def)
        have 1: "effects c' = effects c @ (e0 # es)"
          using es by (simp add: h)
        have 2: "\<forall>i<length (e0 # es). reapplied_at drv (effects c) (e0 # es) i"
        proof (intro allI impI)
          fix i assume i: "i < length (e0 # es)"
          show "reapplied_at drv (effects c) (e0 # es) i"
          proof (cases i)
            case 0
            then show ?thesis using Some True by (simp add: e0_def reapplied_at_0)
          next
            case (Suc j)
            with i all show ?thesis by (simp add: reapplied_at_Suc h)
          qed
        qed
        have 3: "n' = n + length (filter (accepted_at drv (effects c) (e0 # es))
                                    [0..<length (e0 # es)])"
          using cnt
          by (simp add: count_upt_Suc accepted_at_Suc h n0_def del: upt_Suc)
             (simp add: e0_def accepted_at_0)
        have 4: "original_settings c' = original_settings c"
          using o by (simp add: add_effect_def)
        from 1 2 3 4 show ?thesis by blast
      qed
    qed
  qed
qed

lemma refresh_devices_stable:
  assumes "\<forall>h d. EnumDisplaySettings drv h d ENUM_CURRENT_SETTINGS = cur d"
  shows "effects (fst (refresh_devices drv c n ds))
         = effects c @ List.map_filter (reapply cur) (takeWhile (\<lambda>d. d \<noteq> []) ds)"
proof (induction ds arbitrary: c n)
  case Nil
  show ?case by (simp add: List.map_filter_simps)
next
  case (Cons d ds)
  show ?case
  proof (cases "d = []")
    case True
    then show ?thesis by (simp add: List.map_filter_simps)
  next
    case False
    then show ?thesis
      using assms Cons.IH
      by (simp add: List.map_filter_simps reapply_def Let_def add_effect_def split: option.splits)
  qed
qed

lemma force_refresh_trace:
  assumes "force_refresh_displays drv c = (ok, c1)"
  shows "original_settings c1 = original_settings c
   \<and> (\<exists>es. effects c1 = effects c @ Call_ChangeDisplaySettings # es
          \<and> (ChangeDisplaySettings drv (effects c) = None
               \<or> ChangeDisplaySettings drv (effects c) = Some DISP_CHANGE_SUCCESSFUL
               \<longrightarrow> es = [])
          \<and> (\<forall>i<length es. reapplied_at drv (effects c @ [Call_ChangeDisplaySettings]) es i)
          \<and> (\<forall>cur. (\<forall>h d. EnumDisplaySettings drv h d ENUM_CURRENT_SETTINGS = cur d)
                    \<and> (\<exists>r. ChangeDisplaySettings drv (effects c) = Some r
                            \<and> r \<noteq> DISP_CHANGE_SUCCESSFUL)
                \<longrightarrow> es = List.map_filter (reapply cur)
                           (takeWhile (\<lambda>d. d \<noteq> []) (EnumDisplayDevices drv)))
          \<and> (ok \<longleftrightarrow> ChangeDisplaySettings drv (effects c) = Some DISP_CHANGE_SUCCESSFUL
                    \<or> (\<exists>i<length es.
                          accepted_at drv (effects c @ [Call_ChangeDisplaySettings]) es i)))"
proof -
  define c0 where "c0 = add_effect c Call_ChangeDisplaySettings"
  have c0: "original_settings c0 = original_settings c"
    "effects c0 = effects c @ [Call_ChangeDisplaySettings]"
    by (simp_all add: c0_def add_effect_def)
  show ?thesis
  proof (cases "\<exists>r. ChangeDisplaySettings drv (effects c) = Some r \<and> r \<noteq> DISP_CHANGE_SUCCESSFUL")
    case False
    then have k: "ChangeDisplaySettings drv (effects c) = None
        \<or> ChangeDisplaySettings drv (effects c) = Some DISP_CHANGE_SUCCESSFUL"
      by (cases "ChangeDisplaySettings drv (effects c)") auto
    have r: "c1 = c0" "ok \<longleftrightarrow> ChangeDisplaySettings drv (effects c) = Some DISP_CHANGE_SUCCESSFUL"
      using assms k
      by (auto simp: force_refresh_displays_def Let_def c0_def split: option.splits if_splits)
    have "effects c1 = effects c @ Call_ChangeDisplaySettings # []"
      using r c0 by simp
    with r c0 False show ?thesis by auto
  next
    case True
    then obtain r where r: "ChangeDisplaySettings drv (effects c) = Some r"
      "r \<noteq> DISP_CHANGE_SUCCESSFUL" by blast
    obtain c2 n2 where rd: "refresh_devices drv c0 0 (EnumDisplayDevices drv) = (c2, n2)"
      by (cases "refresh_devices drv c0 0 (EnumDisplayDevices drv)")
    have res: "c1 = c2" "ok \<longleftrightarrow> 0 < n2"
      using assms r rd by (auto simp: force_refresh_displays_def Let_def c0_def)
    from refresh_devices_trace [OF rd]
    obtain es where o: "original_settings c2 = original_settings c0"
      and es: "effects c2 = effects c0 @ es"
      and all: "\<forall>i<length es. reapplied_at drv (effects c0) es i"
      and cnt: "n2 = 0 + length (filter (accepted_at drv (effects c0) es) [0..<length es])"
      by blast
    have 1: "effects c1 = effects c @ Call_ChangeDisplaySettings # es"
      using es res c0 by simp
    have 2: "\<forall>i<length es. reapplied_at drv (effects c @ [Call_ChangeDisplaySettings]) es i"
      using all c0 by simp
    have 3: "\<forall>cur. (\<forall>h d. EnumDisplaySettings drv h d ENUM_CURRENT_SETTINGS = cur d)
                \<longrightarrow> es = List.map_filter (reapply cur)
                           (takeWhile (\<lambda>d. d \<noteq> []) (EnumDisplayDevices drv))"
    proof (intro allI impI)
      fix cur assume st: "\<forall>h d. EnumDisplaySettings drv h d ENUM_CURRENT_SETTINGS = cur d"
      have "effects c2 = effects c0 @ List.map_filter (reapply cur)
                           (takeWhile (\<lambda>d. d \<noteq> []) (EnumDisplayDevices drv))"
        using refresh_devices_stable [OF st, of c0 0 "EnumDisplayDevices drv"] rd by simp
      with es show "es = List.map_filter (reapply cur)
                           (takeWhile (\<lambda>d. d \<noteq> []) (EnumDisplayDevices drv))"
        by simp
    qed
    have "0 < n2 \<longleftrightarrow> filter (accepted_at drv (effects c0) es) [0..<length es] \<noteq> []"
      using cnt by simp
    also have "\<dots> \<longleftrightarrow> (\<exists>i<length es. accepted_at drv (effects c0) es i)"
      by (auto simp: filter_empty_conv)
    finally have 4: "ok \<longleftrightarrow> (\<exists>i<length es.
                          accepted_at drv (effects c @ [Call_ChangeDisplaySettings]) es i)"
      using res c0 by simp
    have 5: "original_settings c1 = original_settings c"
      using o res c0 by simp
    from 1 2 3 4 5 r show ?thesis by auto
  qed
qed

text \<open>
  C2, as amended. For a monitor with auto-blank enabled that a tick finds outside its
  window and blanked, the tick calls \<^verbatim>\<open>reset_displays\<close>, that is the forced refresh:
  first the process-wide \<^verbatim>\<open>ChangeDisplaySettings(None, 0)\<close>; when that call is rejected
  with an error code, the devices up to the first one without a name get, in
  enumeration order, the current mode they report applied again, those with a failing
  query or a blank mode left out. The forced refresh succeeds when the process-wide call
  is accepted or at least one re-application is. When it succeeds, every saved geometry
  is dropped and the screens are refreshed. When it fails, the saved geometry is left as
  it is. In no case is anything replayed from the saved geometry.
\<close>

theorem tick_restore_is_reset:
  assumes "wauto_enabled wi" and "widget_in_sleep_time rt now wi = Inr False"
    and "\<not> is_monitor_on drv c (wmonitor wi)"
    and "force_refresh_displays drv c = (ok, c1)"
  shows "check_widget rt drv now c wi = Inr (reset_displays drv c)
     \<and> reset_displays drv c =
         (if ok then
            (\<lparr>original_settings = map_option (\<lambda>_. []) (original_settings c),
              effects = effects c1 @ [Call_refresh_screens]\<rparr>, True)
          else (c1, False))
     \<and> original_settings c1 = original_settings c
     \<and> (\<exists>es. effects c1 = effects c @ Call_ChangeDisplaySettings # es
          \<and> (ChangeDisplaySettings drv (effects c) = None
               \<or> ChangeDisplaySettings drv (effects c) = Some DISP_CHANGE_SUCCESSFUL
               \<longrightarrow> es = [])
          \<and> (\<forall>i<length es. reapplied_at drv (effects c @ [Call_ChangeDisplaySettings]) es i)
          \<and> (\<forall>cur. (\<forall>h d. EnumDisplaySettings drv h d ENUM_CURRENT_SETTINGS = cur d)
                    \<and> (\<exists>r. ChangeDisplaySettings drv (effects c) = Some r
                            \<and> r \<noteq> DISP_CHANGE_SUCCESSFUL)
                \<longrightarrow> es = List.map_filter (reapply cur)
                           (takeWhile (\<lambda>d. d \<noteq> []) (EnumDisplayDevices drv)))
          \<and> (ok \<longleftrightarrow> ChangeDisplaySettings drv (effects c) = Some DISP_CHANGE_SUCCESSFUL
                    \<or> (\<exists>i<length es.
                          accepted_at drv (effects c @ [Call_ChangeDisplaySettings]) es i)))
     \<and> (ok \<longrightarrow> (\<forall>d. saved_lookup (fst (reset_displays drv c)) d = None))"
proof -
  note ft = force_refresh_trace [OF assms(4)]
  have a: "check_widget rt drv now c wi = Inr (reset_displays drv c)"
    using assms(1,2,3) by (simp add: check_widget_def)
  have b: "reset_displays drv c =
         (if ok then
            (\<lparr>original_settings = map_option (\<lambda>_. []) (original_settings c),
              effects = effects c1 @ [Call_refresh_screens]\<rparr>, True)
          else (c1, False))"
    using ft by (simp add: reset_displays_def assms(4) add_effect_def)
  have s: "ok \<longrightarrow> (\<forall>d. saved_lookup (fst (reset_displays drv c)) d = None)"
    by (simp add: b saved_lookup_def split: option.splits)
  from a b s ft show ?thesis by blast
qed

lemma force_refresh_zero:
  "force_refresh_displays drv_zero c_blanked
     = (True, c_blanked\<lparr>effects := [Call_ChangeDisplaySettings]\<rparr>)"
  by (simp add: force_refresh_displays_def drv_zero_def c_blanked_def add_effect_def)

lemma not_on_stale: "\<not> is_monitor_on drv_stale c_blanked monitor_B"
  by (simp add: is_monitor_on_def get_device_name_by_monitor_def drv_stale_def monitor_B_def
      mode_matches_def mode_1920_def saved_lookup_def c_blanked_def)

lemma force_refresh_stale:
  "force_refresh_displays drv_stale c_blanked
     = (True, c_blanked\<lparr>effects :=
                [Call_ChangeDisplaySettings,
                 Call_ChangeDisplaySettingsEx (ascii ''DISPLAY1'') mode_1920 CDS_UPDATEREGISTRY]\<rparr>)"
  by (simp add: force_refresh_displays_def drv_stale_def c_blanked_def add_effect_def
      mode_1920_def)

theorem tick_restore_is_reset_witness:
  "wauto_enabled widget_B
   \<and> widget_in_sleep_time rt_sample (12, 0, 0) widget_B = Inr False
   \<and> \<not> is_monitor_on drv_blanked c_blanked (wmonitor widget_B)
   \<and> check_widget rt_sample drv_blanked (12, 0, 0) c_blanked widget_B
       = Inr (\<lparr>original_settings = Some [(ascii ''DISPLAY1'', saved_1920)],
               effects = [Call_ChangeDisplaySettings]\<rparr>, False)
   \<and> \<not> is_monitor_on drv_zero c_blanked (wmonitor widget_B)
   \<and> check_widget rt_sample drv_zero (12, 0, 0) c_blanked widget_B
       = Inr (\<lparr>original_settings = Some [],
               effects = [Call_ChangeDisplaySettings, Call_refresh_screens]\<rparr>, True)
   \<and> \<not> is_monitor_on drv_stale c_blanked (wmonitor widget_B)
   \<and> check_widget rt_sample drv_stale (12, 0, 0) c_blanked widget_B
       = Inr (\<lparr>original_settings = Some [],
               effects = [Call_ChangeDisplaySettings,
                          Call_ChangeDisplaySettingsEx (ascii ''DISPLAY1'') mode_1920
                            CDS_UPDATEREGISTRY,
                          Call_refresh_screens]\<rparr>, True)"
proof -
  have h1: "\<not> is_monitor_on drv_blanked c_blanked (wmonitor widget_B)"
    by (simp add: widget_B_enabled not_on_blanked)
  have h2: "\<not> is_monitor_on drv_zero c_blanked (wmonitor widget_B)"
    by (simp add: widget_B_enabled not_on_zero)
  have h3: "\<not> is_monitor_on drv_stale c_blanked (wmonitor widget_B)"
    by (simp add: widget_B_enabled not_on_stale)
  have a: "check_widget rt_sample drv_blanked (12, 0, 0) c_blanked widget_B
       = Inr (\<lparr>original_settings = Some [(ascii ''DISPLAY1'', saved_1920)],
               effects = [Call_ChangeDisplaySettings]\<rparr>, False)"
    using tick_restore_is_reset [OF widget_B_enabled(1) widget_B_noon h1 force_refresh_blanked]
    by (simp add: c_blanked_def)
  have b: "check_widget rt_sample drv_zero (12, 0, 0) c_blanked widget_B
       = Inr (\<lparr>original_settings = Some [],
               effects = [Call_ChangeDisplaySettings, Call_refresh_screens]\<rparr>, True)"
    using tick_restore_is_reset [OF widget_B_enabled(1) widget_B_noon h2 force_refresh_zero]
    by (simp add: c_blanked_def)
  have c: "check_widget rt_sample drv_stale (12, 0, 0) c_blanked widget_B
       = Inr (\<lparr>original_settings = Some [],
               effects = [Call_ChangeDisplaySettings,
                          Call_ChangeDisplaySettingsEx (ascii ''DISPLAY1'') mode_1920
                            CDS_UPDATEREGISTRY,
                          Call_refresh_screens]\<rparr>, True)"
    using tick_restore_is_reset [OF widget_B_enabled(1) widget_B_noon h3 force_refresh_stale]
    by (simp add: c_blanked_def)
  from widget_B_enabled(1) widget_B_noon h1 h2 h3 a b c show ?thesis by simp
qed

text \<open>
  C2 as stated fails when the forced refresh fails: the tick stops after the rejected
  \<^verbatim>\<open>ChangeDisplaySettings\<close> and keeps the saved geometry, whereas the replay of
  \<^verbatim>\<open>restore_all_screens\<close>, which the tick does not call, would set the device back to
  1920x1080.
\<close>

theorem tick_no_replay_counterexample:
  "wauto_enabled widget_B
   \<and> widget_in_sleep_time rt_sample (12, 0, 0) widget_B = Inr False
   \<and> \<not> is_monitor_on drv_blanked c_blanked monitor_B
   \<and> saved_lookup c_blanked (ascii ''DISPLAY1'') = Some saved_1920
   \<and> \<not> fst (force_refresh_displays drv_blanked c_blanked)
   \<and> check_auto_screen_off rt_sample drv_blanked (12, 0, 0) c_blanked [widget_B]
       = c_blanked\<lparr>effects := [Call_ChangeDisplaySettings]\<rparr>
   \<and> restore_all_screens drv_blanked c_blanked =
       \<lparr>original_settings = Some [],
        effects = [Call_ChangeDisplaySettings,
                   Call_ChangeDisplaySettingsEx (ascii ''DISPLAY1'')
                     (mode_1920\<lparr>Fields := {DM_PELSWIDTH, DM_PELSHEIGHT, DM_POSITION}\<rparr>)
                     CDS_UPDATEREGISTRY]\<rparr>"
  by (simp add: widget_B_enabled widget_B_noon not_on_blanked force_refresh_blanked
      tick_blanked_noon restore_all_blanked)
     (simp add: saved_lookup_def c_blanked_def)

section \<open>The scheduler tick\<close>


























end
